theory Spec2Isabelle
  imports Complex_Main "HOL-Library.AList"
begin

section \<open>Python values, strings and exceptions\<close>

text \<open>
  The module \<open>bmwcdapi.py\<close> is embedded function by function. Python values that travel
  through the program (decoded JSON, the VIN, the cached vehicle list, which may also be an
  integer status code) are values of \<open>pyval\<close>. A dict keeps its insertion order, so it is
  an association list; a float is kept as the text Python prints for it, since the program
  only formats and compares the values it receives. A \<open>char\<close> is a code point below
  256: a header value, which the transport decodes as Latin-1, is made of these, and so are
  URLs, tokens and VINs. The classes \<open>\w\<close>, \<open>\d\<close> and \<open>.\<close> of the token pattern, the
  escapes of \<open>repr\<close> and the percent-encoding of \<open>urlencode\<close> are Python's on these code
  points; text with a code point from 256 on is outside the model.
\<close>

datatype pyval =
    PNone
  | PBool bool
  | PInt int
  | PFloat string
  | PStr string
  | PList "pyval list"
  | PDict "(string \<times> pyval) list"

datatype pyerr =
    TypeError
  | KeyError
  | AttributeError
  | ValueError
  | ParseError
  | ConnectionError
  | OverflowError
  | OSError

datatype 'a outcome = Raise pyerr | Return 'a

subsection \<open>Printing values: \<open>str\<close>, \<open>repr\<close> and \<open>format\<close>\<close>

function digits_of_nat :: "nat \<Rightarrow> string" where
  "digits_of_nat n =
     (if n < 10 then [''0123456789'' ! n]
      else digits_of_nat (n div 10) @ [''0123456789'' ! (n mod 10)])"
  by pat_completeness auto
termination
  by (relation "measure (\<lambda>n. n)") auto

definition str_int :: "int \<Rightarrow> string" where
  "str_int i = (if i < 0 then CHR ''-'' # digits_of_nat (nat (- i)) else digits_of_nat (nat i))"

definition hex_lower :: "nat \<Rightarrow> char" where
  "hex_lower n = ''0123456789abcdef'' ! (n mod 16)"

definition hex_upper :: "nat \<Rightarrow> char" where
  "hex_upper n = ''0123456789ABCDEF'' ! (n mod 16)"

definition repr_char :: "char \<Rightarrow> char \<Rightarrow> string" where
  "repr_char q ch =
     (let n = (of_char ch :: nat) in
      if ch = q \<or> ch = CHR 0x5C then [CHR 0x5C, ch]
      else if ch = CHR 0x09 then [CHR 0x5C, CHR ''t'']
      else if ch = CHR 0x0A then [CHR 0x5C, CHR ''n'']
      else if ch = CHR 0x0D then [CHR 0x5C, CHR ''r'']
      else if n < 32 \<or> (127 \<le> n \<and> n \<le> 160) \<or> n = 173
      then [CHR 0x5C, CHR ''x'', hex_lower (n div 16), hex_lower n]
      else [ch])"

definition repr_str :: "string \<Rightarrow> string" where
  "repr_str s =
     (let q = (if CHR 0x27 \<in> set s \<and> CHR 0x22 \<notin> set s then CHR 0x22 else CHR 0x27)
      in q # concat (map (repr_char q) s) @ [q])"

fun join :: "string \<Rightarrow> string list \<Rightarrow> string" where
  "join sep [] = []"
| "join sep [x] = x"
| "join sep (x # y # ys) = x @ sep @ join sep (y # ys)"

fun py_repr :: "pyval \<Rightarrow> string" where
  "py_repr PNone = ''None''"
| "py_repr (PBool b) = (if b then ''True'' else ''False'')"
| "py_repr (PInt i) = str_int i"
| "py_repr (PFloat s) = s"
| "py_repr (PStr s) = repr_str s"
| "py_repr (PList xs) = ''['' @ join '', '' (map py_repr xs) @ '']''"
| "py_repr (PDict kvs) =
     ''{'' @ join '', '' (map (\<lambda>kv. repr_str (fst kv) @ '': '' @ py_repr (snd kv)) kvs) @ ''}''"

definition py_str :: "pyval \<Rightarrow> string" where
  "py_str v = (case v of PStr s \<Rightarrow> s | _ \<Rightarrow> py_repr v)"

subsection \<open>Subscripts, item assignment, iteration\<close>

text \<open>\<open>v[key]\<close> for a string key: only a dict accepts one, and raises KeyError when the key
  is missing; every other type raises TypeError.\<close>

definition py_getitem :: "pyval \<Rightarrow> string \<Rightarrow> pyerr + pyval" where
  "py_getitem v key =
     (case v of
        PDict kvs \<Rightarrow> (case map_of kvs key of None \<Rightarrow> Inl KeyError | Some x \<Rightarrow> Inr x)
      | _ \<Rightarrow> Inl TypeError)"

text \<open>\<open>v[sub]\<close> where \<open>sub\<close> may be the default \<open>None\<close> of \<open>sub_data_type\<close>.\<close>

definition py_getitem_opt :: "pyval \<Rightarrow> string option \<Rightarrow> pyerr + pyval" where
  "py_getitem_opt v sub =
     (case sub of
        Some key \<Rightarrow> py_getitem v key
      | None \<Rightarrow> (case v of PDict kvs \<Rightarrow> Inl KeyError | _ \<Rightarrow> Inl TypeError))"

text \<open>\<open>v[key] = x\<close>: a dict replaces the value in place or appends the new key.\<close>

definition py_setitem :: "pyval \<Rightarrow> string \<Rightarrow> pyval \<Rightarrow> pyerr + pyval" where
  "py_setitem v key x =
     (case v of
        PDict kvs \<Rightarrow> Inr (PDict (AList.update key x kvs))
      | _ \<Rightarrow> Inl TypeError)"

text \<open>\<open>for x in v\<close>: a list gives its elements, a dict its keys, a string its characters;
  nothing else is iterable.\<close>

definition py_iter :: "pyval \<Rightarrow> pyerr + pyval list" where
  "py_iter v =
     (case v of
        PList xs \<Rightarrow> Inr xs
      | PDict kvs \<Rightarrow> Inr (map (\<lambda>kv. PStr (fst kv)) kvs)
      | PStr s \<Rightarrow> Inr (map (\<lambda>ch. PStr [ch]) s)
      | _ \<Rightarrow> Inl TypeError)"

subsection \<open>\<open>int\<close> and \<open>round\<close> on floats\<close>

definition py_int :: "real \<Rightarrow> int" where
  "py_int x = (if 0 \<le> x then \<lfloor>x\<rfloor> else \<lceil>x\<rceil>)"

definition py_round :: "real \<Rightarrow> int" where
  "py_round x =
     (let f = \<lfloor>x\<rfloor>; d = x - of_int f in
      if d < 1 / 2 then f else if 1 / 2 < d then f + 1 else if even f then f else f + 1)"

subsection \<open>String tests and \<open>urllib.parse.urlencode\<close>\<close>

fun startswith :: "string \<Rightarrow> string \<Rightarrow> bool" where
  "startswith s [] = True"
| "startswith [] (p # ps) = False"
| "startswith (x # xs) (p # ps) = (x = p \<and> startswith xs ps)"

text \<open>\<open>sub in s\<close> for strings.\<close>

fun contains :: "string \<Rightarrow> string \<Rightarrow> bool" where
  "contains sub [] = (sub = [])"
| "contains sub (x # xs) = (startswith (x # xs) sub \<or> contains sub xs)"

definition is_digit :: "char \<Rightarrow> bool" where
  "is_digit ch = (let n = (of_char ch :: nat) in 48 \<le> n \<and> n \<le> 57)"

text \<open>\<open>\w\<close> on a \<open>str\<close> pattern: the alphanumeric code points and the underscore. Below 256
  these are the ASCII letters and digits, the letters of Latin-1, and its superscript digits
  and fractions.\<close>

definition is_word :: "char \<Rightarrow> bool" where
  "is_word ch =
     (let n = (of_char ch :: nat) in
      (48 \<le> n \<and> n \<le> 57) \<or> (65 \<le> n \<and> n \<le> 90) \<or> (97 \<le> n \<and> n \<le> 122) \<or> n = 95
      \<or> n = 170 \<or> n = 178 \<or> n = 179 \<or> n = 181 \<or> n = 185 \<or> n = 186
      \<or> (188 \<le> n \<and> n \<le> 190) \<or> (192 \<le> n \<and> n \<le> 214) \<or> (216 \<le> n \<and> n \<le> 246)
      \<or> 248 \<le> n)"

text \<open>The characters \<open>quote_plus\<close> leaves as they are; a space becomes \<open>+\<close>, and any
  other character the \<open>%XX\<close> of each byte of its UTF-8 encoding (two bytes from 128 on).\<close>

definition is_unreserved :: "char \<Rightarrow> bool" where
  "is_unreserved ch =
     (let n = (of_char ch :: nat) in
      (48 \<le> n \<and> n \<le> 57) \<or> (65 \<le> n \<and> n \<le> 90) \<or> (97 \<le> n \<and> n \<le> 122)
      \<or> ch = CHR ''_'' \<or> ch = CHR ''.'' \<or> ch = CHR ''-'' \<or> ch = CHR ''~'')"

definition is_dot :: "char \<Rightarrow> bool" where
  "is_dot ch = (ch \<noteq> CHR 0x0A)"

definition quote_char :: "char \<Rightarrow> string" where
  "quote_char ch =
     (let n = (of_char ch :: nat) in
      if is_unreserved ch then [ch]
      else if ch = CHR '' '' then ''+''
      else if n < 128 then [CHR ''%'', hex_upper (n div 16), hex_upper n]
      else [CHR ''%'', CHR ''C'', hex_upper (n div 64),
            CHR ''%'', hex_upper (8 + (n div 16) mod 4), hex_upper n])"

definition quote_plus :: "string \<Rightarrow> string" where
  "quote_plus s = concat (map quote_char s)"

definition urlencode :: "(string \<times> string) list \<Rightarrow> string" where
  "urlencode kvs = join ''&'' (map (\<lambda>kv. quote_plus (fst kv) @ ''='' @ quote_plus (snd kv)) kvs)"

subsection \<open>The token pattern of the login redirect\<close>

text \<open>
  \<open>re.match(".*access_token=([\w\d]+).*token_type=(\w+).*expires_in=(\d+).*", payload)\<close>
  is a backtracking match from the start of the payload: every repetition is greedy and
  gives characters back, longest first, until what follows it matches. Each piece of the
  pattern takes the rest of the pattern as a continuation.
\<close>

fun star :: "(char \<Rightarrow> bool) \<Rightarrow> (string \<Rightarrow> 'a option) \<Rightarrow> string \<Rightarrow> 'a option" where
  "star p k [] = k []"
| "star p k (x # xs) =
     (if p x then (case star p k xs of Some r \<Rightarrow> Some r | None \<Rightarrow> k (x # xs))
      else k (x # xs))"

fun star_group :: "(char \<Rightarrow> bool) \<Rightarrow> (string \<Rightarrow> string \<Rightarrow> 'a option) \<Rightarrow> string \<Rightarrow> string \<Rightarrow> 'a option"
  where
  "star_group p k acc [] = k acc []"
| "star_group p k acc (x # xs) =
     (if p x then (case star_group p k (acc @ [x]) xs of Some r \<Rightarrow> Some r | None \<Rightarrow> k acc (x # xs))
      else k acc (x # xs))"

definition plus_group :: "(char \<Rightarrow> bool) \<Rightarrow> (string \<Rightarrow> string \<Rightarrow> 'a option) \<Rightarrow> string \<Rightarrow> 'a option"
  where
  "plus_group p k s =
     (case s of [] \<Rightarrow> None | x # xs \<Rightarrow> if p x then star_group p k [x] xs else None)"

definition lit :: "string \<Rightarrow> (string \<Rightarrow> 'a option) \<Rightarrow> string \<Rightarrow> 'a option" where
  "lit l k s = (if startswith s l then k (drop (length l) s) else None)"

definition re_match_token :: "string \<Rightarrow> (string \<times> string \<times> string) option" where
  "re_match_token payload =
     star is_dot (lit ''access_token=''
       (plus_group is_word (\<lambda>g1. star is_dot (lit ''token_type=''
         (plus_group is_word (\<lambda>g2. star is_dot (lit ''expires_in=''
           (plus_group is_digit (\<lambda>g3. star is_dot (\<lambda>rest. Some (g1, g2, g3)))))))))))
       payload"

text \<open>\<open>int(s)\<close> on a string of decimal digits.\<close>

definition int_of_digits :: "string \<Rightarrow> int" where
  "int_of_digits s = foldl (\<lambda>a ch. 10 * a + (int (of_char ch) - 48)) 0 s"

section \<open>The world outside: clock, transport, sleep\<close>

text \<open>
  The program reads the clock (\<open>time.time()\<close>), calls the transport (\<open>requests.get\<close>,
  \<open>requests.post\<close>) and sleeps. The world answers the k-th clock reading with \<open>clock k\<close>
  and the k-th transport call with \<open>net k\<close>, and records every call and every sleep, in
  order, in \<open>trace\<close>. A request records the keyword arguments the source passes;
  \<open>req_timeout\<close> is \<open>None\<close> when the call passes no \<open>timeout\<close>. A response body is given
  by what \<open>.json()\<close> and \<open>etree.fromstring\<close> make of it (\<open>None\<close> when the decoder
  raises); \<open>location\<close> is \<open>headers['Location']\<close>. \<open>Fault\<close> is a transport call that
  raises instead of answering. \<open>localtime_raises t\<close> is the exception of
  \<open>time.localtime(t)\<close> on this platform (OverflowError or OSError for a timestamp out of
  its range), \<open>None\<close> when it returns.
\<close>

datatype http_method = GET | POST

record request =
  req_method :: http_method
  req_url :: string
  req_headers :: "(string \<times> string) list"
  req_data :: "string option"
  req_allow_redirects :: bool
  req_timeout :: "nat option"

datatype event = Sent request | Slept nat

datatype xml = Element (tag: string) (xtext: "string option") (children: "xml list")

record response =
  status_code :: int
  location :: "string option"
  json_body :: "pyval option"
  xml_body :: "xml option"

datatype reply = Fault | Reply response

record world =
  clock :: "nat \<Rightarrow> real"
  reads :: nat
  utc_minus_local :: real
  localtime_raises :: "int \<Rightarrow> pyerr option"
  net :: "nat \<Rightarrow> reply"
  calls :: nat
  trace :: "event list"

definition time_now :: "world \<Rightarrow> real" where
  "time_now w = clock w (reads w)"

definition tick :: "world \<Rightarrow> world" where
  "tick w = w\<lparr>reads := Suc (reads w)\<rparr>"

definition answer :: "world \<Rightarrow> reply" where
  "answer w = net w (calls w)"

definition send :: "request \<Rightarrow> world \<Rightarrow> world" where
  "send rq w = w\<lparr>calls := Suc (calls w), trace := trace w @ [Sent rq]\<rparr>"

definition sleep :: "nat \<Rightarrow> world \<Rightarrow> world" where
  "sleep n w = w\<lparr>trace := trace w @ [Slept n]\<rparr>"

section \<open>The class \<open>ConnectedDrive\<close>\<close>

text \<open>
  The fields of the object, with the source's names. \<open>cars\<close> holds whatever
  \<open>request_car_data\<close> returned; \<open>cars_data\<close> is \<open>None\<close> until \<open>update\<close> creates the
  attribute. Timestamps are real numbers, as \<open>time.time()\<close> returns them, and
  \<open>int(...)\<close> truncates them. The lock (the program is sequential here), the log lines,
  the printed car data and the value of \<open>token_expires_date_time\<close> (the expiry formatted
  for the log) are left out; the exception \<open>time.localtime\<close> can raise while formatting
  it is not.
\<close>

record conn =
  printall :: bool
  bmw_username :: "string option"
  bmw_password :: "string option"
  bmw_url :: string
  bmw_url_me :: string
  update_interval :: int
  is_valid_session :: bool
  last_update_time :: real
  is_updated :: bool
  accesstoken :: "string option"
  token_expires :: int
  utc_offset_min :: int
  cars :: pyval
  bmw_vin :: pyval
  cars_data :: "pyval list option"

definition TIMEOUT :: nat where
  "TIMEOUT = 10"

definition AUTH_API :: string where
  "AUTH_API = ''https://customer.bmwgroup.com/gcdm/oauth/authenticate''"

definition USER_AGENT :: string where
  "USER_AGENT = ''Mozilla/5.0 (Windows NT 10.0; Win64; x64; rv:57.0) Gecko/20100101 Firefox/57.0''"

definition str_opt :: "string option \<Rightarrow> string" where
  "str_opt v = (case v of None \<Rightarrow> ''None'' | Some s \<Rightarrow> s)"

subsection \<open>\<open>generate_credentials\<close> and \<open>token_valid\<close>\<close>

definition generate_credentials :: "conn \<times> world \<Rightarrow> unit outcome \<times> conn \<times> world" where
  "generate_credentials = (\<lambda>(c, w).
     let headers = [(''Content-Type'', ''application/x-www-form-urlencoded''),
                    (''User-agent'', USER_AGENT)];
         values = [(''username'', str_opt (bmw_username c)),
                   (''password'', str_opt (bmw_password c)),
                   (''client_id'', ''dbf0a542-ebd1-4ff0-a9a7-55172fbfce35''),
                   (''redirect_uri'',
                    ''https://www.bmw-connecteddrive.com/app/default/static/external-dispatch.html''),
                   (''response_type'', ''token''),
                   (''scope'', ''authenticate_user fupo''),
                   (''state'',
                    ''eyJtYXJrZXQiOiJkZSIsImxhbmd1YWdlIjoiZGUiLCJkZXN0aW5hdGlvbiI6ImxhbmRpbmdQYWdlIn0''),
                   (''locale'', ''DE-de'')];
         data = urlencode values;
         credentials_response = answer w;
         w1 = send \<lparr>req_method = POST, req_url = AUTH_API, req_headers = headers,
                    req_data = Some data, req_allow_redirects = False, req_timeout = None\<rparr> w
     in case credentials_response of
          Fault \<Rightarrow> (Raise ConnectionError, c, w1)
        | Reply r \<Rightarrow>
            (case location r of
               None \<Rightarrow> (Raise KeyError, c, w1)
             | Some my_payload \<Rightarrow>
                 if contains ''error=access_denied'' my_payload
                 then (Return (), c\<lparr>is_valid_session := False\<rparr>, w1)
                 else (case re_match_token my_payload of
                         None \<Rightarrow> (Raise AttributeError, c, w1)
                       | Some (g1, token_type, g3) \<Rightarrow>
                           (let c1 = c\<lparr>accesstoken := Some g1,
                                       token_expires :=
                                         py_int (time_now w1) + int_of_digits g3\<rparr>;
                                w2 = tick w1
                            in (case localtime_raises w2 (token_expires c1) of
                                  Some e \<Rightarrow> (Raise e, c1, w2)
                                | None \<Rightarrow>
                                    (Return (), c1\<lparr>is_valid_session := True\<rparr>, w2))))))"

definition token_valid :: "conn \<times> world \<Rightarrow> unit outcome \<times> conn \<times> world" where
  "token_valid = (\<lambda>(c, w).
     let cur_time = time_now w; w1 = tick w
     in if py_int cur_time \<ge> token_expires c then generate_credentials (c, w1)
        else (Return (), c, w1))"

subsection \<open>\<open>request_car_data\<close>, \<open>get_cars\<close>, \<open>get_car_data\<close>\<close>

text \<open>The \<open>vin\<close> argument is \<open>PNone\<close> for Python's \<open>None\<close>.\<close>

definition request_car_data ::
  "string \<Rightarrow> string option \<Rightarrow> pyval \<Rightarrow> conn \<times> world \<Rightarrow> pyval outcome \<times> conn \<times> world" where
  "request_car_data data_type sub_data_type vin = (\<lambda>(c, w).
     case accesstoken c of
       None \<Rightarrow> (Raise TypeError, c, w)
     | Some tok \<Rightarrow>
         let headers = [(''Content-Type'', ''application/json''),
                        (''User-agent'', USER_AGENT),
                        (''Authorization'', ''Bearer '' @ tok)]
         in case token_valid (c, w) of (tv, c1, w1) \<Rightarrow>
           (case tv of
              Raise e \<Rightarrow> (Raise e, c1, w1)
            | Return u \<Rightarrow>
                let c2 = (if vin \<noteq> PNone then c1\<lparr>bmw_vin := vin\<rparr> else c1);
                    url = (if data_type = ''dynamic''
                           then bmw_url c2 @ ''/'' @ data_type @ ''/v1/'' @ py_str (bmw_vin c2)
                                @ ''?offset='' @ str_int (utc_offset_min c2)
                           else if data_type = ''get_cars''
                           then bmw_url_me c2 @ ''/vehicles/v2''
                           else bmw_url c2 @ ''/'' @ data_type @ ''/v1/'' @ py_str (bmw_vin c2));
                    data_response = answer w1;
                    w2 = send \<lparr>req_method = GET, req_url = url, req_headers = headers,
                               req_data = None, req_allow_redirects = True,
                               req_timeout = None\<rparr> w1
                in (case data_response of
                      Fault \<Rightarrow> (Raise ConnectionError, c2, w2)
                    | Reply r \<Rightarrow>
                        if status_code r = 200
                        then (case json_body r of
                                None \<Rightarrow> (Raise ValueError, c2, w2)
                              | Some j \<Rightarrow>
                                  if data_type = ''dynamic'' \<or> data_type = ''servicepartner''
                                  then (case py_getitem_opt j sub_data_type of
                                          Inl e \<Rightarrow> (Raise e, c2, w2)
                                        | Inr v \<Rightarrow> (Return v, c2, w2))
                                  else (Return j, c2, w2))
                        else (Return (PInt (status_code r)), c2, w2))))"

text \<open>The first loop of \<open>get_cars\<close> evaluates \<open>car['brand']\<close>, \<open>car['modelName']\<close> and
  \<open>car['vin']\<close> for its log line; the result is the first exception, if any.\<close>

fun log_cars :: "pyval list \<Rightarrow> pyerr option" where
  "log_cars [] = None"
| "log_cars (car # rest) =
     (case py_getitem car ''brand'' of
        Inl e \<Rightarrow> Some e
      | Inr b \<Rightarrow>
          (case py_getitem car ''modelName'' of
             Inl e \<Rightarrow> Some e
           | Inr m \<Rightarrow>
               (case py_getitem car ''vin'' of
                  Inl e \<Rightarrow> Some e
                | Inr v \<Rightarrow> log_cars rest)))"

text \<open>Once the first loop has passed, every car is a dict, and the \<open>printall\<close> block only
  logs: it is not part of the model.\<close>

definition get_cars :: "conn \<times> world \<Rightarrow> pyval outcome \<times> conn \<times> world" where
  "get_cars = (\<lambda>(c, w).
     case request_car_data ''get_cars'' None PNone (c, w) of (r, c1, w1) \<Rightarrow>
       (case r of
          Raise e \<Rightarrow> (Raise e, c1, w1)
        | Return v \<Rightarrow>
            let c2 = c1\<lparr>cars := v\<rparr>
            in (case py_iter (cars c2) of
                  Inl e \<Rightarrow> (Raise e, c2, w1)
                | Inr xs \<Rightarrow>
                    (case log_cars xs of
                       Some e \<Rightarrow> (Raise e, c2, w1)
                     | None \<Rightarrow> (Return (cars c2), c2, w1)))))"

definition get_car_data :: "pyval \<Rightarrow> conn \<times> world \<Rightarrow> pyval outcome \<times> conn \<times> world" where
  "get_car_data vin = request_car_data ''dynamic'' (Some ''attributesMap'') vin"

subsection \<open>\<open>update\<close>\<close>

text \<open>\<open>type(v) is int\<close>: true of an \<open>int\<close> only (not of a \<open>bool\<close>).\<close>

definition type_is_int :: "pyval \<Rightarrow> bool" where
  "type_is_int v = (case v of PInt i \<Rightarrow> True | _ \<Rightarrow> False)"

text \<open>\<open>key in v\<close> for a string key.\<close>

definition py_in :: "string \<Rightarrow> pyval \<Rightarrow> pyerr + bool" where
  "py_in key v =
     (case v of
        PDict kvs \<Rightarrow> Inr (key \<in> set (map fst kvs))
      | PList xs \<Rightarrow> Inr (PStr key \<in> set xs)
      | PStr s \<Rightarrow> Inr (contains key s)
      | _ \<Rightarrow> Inl TypeError)"

text \<open>
  The body of the loop over \<open>self.cars\<close>. The result is \<open>Return True\<close> when the snapshot
  was appended and the loop goes on, \<open>Return False\<close> when the body executes the bare
  \<open>return\<close> of the failed fetch.
\<close>

definition update_car :: "pyval \<Rightarrow> conn \<times> world \<Rightarrow> bool outcome \<times> conn \<times> world" where
  "update_car car = (\<lambda>(c, w).
     case py_getitem car ''vin'' of
       Inl e \<Rightarrow> (Raise e, c, w)
     | Inr vin \<Rightarrow>
     (case py_getitem car ''brand'' of
       Inl e \<Rightarrow> (Raise e, c, w)
     | Inr brand \<Rightarrow>
     (case py_getitem car ''modelName'' of
       Inl e \<Rightarrow> (Raise e, c, w)
     | Inr model_name \<Rightarrow>
     (let car_name = py_str brand @ '' '' @ py_str model_name
      in (case get_car_data vin (c, w) of (r, c1, w1) \<Rightarrow>
     (case r of
       Raise e \<Rightarrow> (Raise e, c1, w1)
     | Return car_data \<Rightarrow>
     if type_is_int car_data then (Return False, c1, w1)
     else
     (case py_setitem car_data ''vin'' vin of
       Inl e \<Rightarrow> (Raise e, c1, w1)
     | Inr d1 \<Rightarrow>
     (case py_setitem d1 ''car_name'' (PStr car_name) of
       Inl e \<Rightarrow> (Raise e, c1, w1)
     | Inr d2 \<Rightarrow>
     (case py_in ''charging_status'' d2 of
       Inl e \<Rightarrow> (Raise e, c1, w1)
     | Inr has_charging_status \<Rightarrow>
     (case (if has_charging_status
            then (case py_getitem d2 ''remaining_fuel'' of
                    Inl e \<Rightarrow> Inl e
                  | Inr fuel \<Rightarrow> Inr (if fuel = PStr ''0'' then ''electric'' else ''hybrid''))
            else Inr ''fuel'') of
       Inl e \<Rightarrow> (Raise e, c1, w1)
     | Inr type_of_car \<Rightarrow>
     (case py_setitem d2 ''type_of_car'' (PStr type_of_car) of
       Inl e \<Rightarrow> (Raise e, c1, w1)
     | Inr d3 \<Rightarrow>
     (case cars_data c1 of
       None \<Rightarrow> (Raise AttributeError, c1, w1)
     | Some xs \<Rightarrow> (Return True, c1\<lparr>cars_data := Some (xs @ [d3])\<rparr>, w1)))))))))))))"

fun update_loop :: "pyval list \<Rightarrow> conn \<times> world \<Rightarrow> bool outcome \<times> conn \<times> world" where
  "update_loop [] (c, w) = (Return True, c, w)"
| "update_loop (car # rest) (c, w) =
     (case update_car car (c, w) of (r, c1, w1) \<Rightarrow>
        (case r of
           Raise e \<Rightarrow> (Raise e, c1, w1)
         | Return appended \<Rightarrow>
             if appended then update_loop rest (c1, w1) else (Return False, c1, w1)))"

text \<open>The result \<open>None\<close> is Python's \<open>None\<close> (both bare \<open>return\<close>s); \<open>Some xs\<close> is the
  snapshot list.\<close>

definition update :: "conn \<times> world \<Rightarrow> pyval list option outcome \<times> conn \<times> world" where
  "update = (\<lambda>(c, w).
     let cur_time = time_now w; w0 = tick w
     in if cur_time - last_update_time c > real_of_int (update_interval c)
        then (let c0 = c\<lparr>cars_data := Some []\<rparr>
              in (case py_iter (cars c0) of
                    Inl e \<Rightarrow> (Raise e, c0, w0)
                  | Inr xs \<Rightarrow>
                      (case update_loop xs (c0, w0) of (r, c1, w1) \<Rightarrow>
                         (case r of
                            Raise e \<Rightarrow> (Raise e, c1, w1)
                          | Return completed \<Rightarrow>
                              if completed
                              then (let c2 = c1\<lparr>last_update_time := time_now w1,
                                                  is_updated := True\<rparr>
                                    in (Return (cars_data c2), c2, tick w1))
                              else (Return None, c1, w1)))))
        else (Return None, c\<lparr>is_updated := False\<rparr>, w0))"

subsection \<open>\<open>execute_service\<close>\<close>

definition service_codes :: "(string \<times> string) list" where
  "service_codes =
     [(''climate'', ''RCN''), (''lock'', ''RDL''), (''unlock'', ''RDU''),
      (''light'', ''RLF''), (''horn'', ''RHB'')]"

text \<open>\<open>etree.fromstring(response.text).find('remoteServiceStatus').text\<close>: the text of the
  first child of the root with that tag.\<close>

definition read_status :: "response \<Rightarrow> pyerr + string option" where
  "read_status r =
     (case xml_body r of
        None \<Rightarrow> Inl ParseError
      | Some root_data \<Rightarrow>
          (case List.find (\<lambda>e. tag e = ''remoteServiceStatus'') (children root_data) of
             None \<Rightarrow> Inl AttributeError
           | Some e \<Rightarrow> Inr (xtext e)))"

text \<open>The loop \<open>for i in range(max_retries)\<close>, by the number of rounds left; it carries
  \<open>remote_service_status\<close> and returns it when the loop ends or breaks.\<close>

fun poll_loop :: "nat \<Rightarrow> nat \<Rightarrow> request \<Rightarrow> string option \<Rightarrow> world \<Rightarrow> string option outcome \<times> world"
  where
  "poll_loop 0 interval rq remote_service_status w = (Return remote_service_status, w)"
| "poll_loop (Suc n) interval rq remote_service_status w =
     (let w1 = sleep interval w;
          remoteservices_response = answer w1;
          w2 = send rq w1
      in (case remoteservices_response of
            Fault \<Rightarrow> (Raise ConnectionError, w2)
          | Reply r \<Rightarrow>
              (case read_status r of
                 Inl e \<Rightarrow> (Raise e, w2)
               | Inr status \<Rightarrow>
                   if status = Some ''EXECUTED'' then (Return status, w2)
                   else poll_loop n interval rq status w2)))"

definition execute_service ::
  "string \<Rightarrow> pyval \<Rightarrow> conn \<times> world \<Rightarrow> bool outcome \<times> conn \<times> world" where
  "execute_service service vin = (\<lambda>(c, w).
     case token_valid (c, w) of (tv, c1, w1) \<Rightarrow>
       (case tv of
          Raise e \<Rightarrow> (Raise e, c1, w1)
        | Return u \<Rightarrow>
            (let max_retries = 9; interval = 10
             in (case accesstoken c1 of
                   None \<Rightarrow> (Raise TypeError, c1, w1)
                 | Some tok \<Rightarrow>
                     (let headers = [(''Content-Type'', ''application/json''),
                                     (''User-agent'', USER_AGENT),
                                     (''Authorization'', ''Bearer '' @ tok)]
                      in (case map_of service_codes service of
                            None \<Rightarrow> (Raise KeyError, c1, w1)
                          | Some command \<Rightarrow>
                              (let url = bmw_url c1 @ ''/remoteservices/v1/'' @ py_str vin
                                         @ ''/'' @ command;
                                   url_check = bmw_url c1 @ ''/remoteservices/v1/'' @ py_str vin
                                               @ ''/state/execution'';
                                   execute_response = answer w1;
                                   w2 = send \<lparr>req_method = POST, req_url = url,
                                              req_headers = headers, req_data = None,
                                              req_allow_redirects = True,
                                              req_timeout = None\<rparr> w1
                               in (case execute_response of
                                     Fault \<Rightarrow> (Raise ConnectionError, c1, w2)
                                   | Reply r \<Rightarrow>
                                       if status_code r \<noteq> 200 then (Return False, c1, w2)
                                       else
                                       (case poll_loop max_retries interval
                                               \<lparr>req_method = GET, req_url = url_check,
                                                req_headers = headers, req_data = None,
                                                req_allow_redirects = True,
                                                req_timeout = None\<rparr> None w2 of
                                          (pr, w3) \<Rightarrow>
                                            (case pr of
                                               Raise e \<Rightarrow> (Raise e, c1, w3)
                                             | Return remote_service_status \<Rightarrow>
                                                 if remote_service_status \<noteq> Some ''EXECUTED''
                                                 then (Return False, c1, w3)
                                                 else (Return True, c1, w3)))))))))))"

subsection \<open>The constructor\<close>

text \<open>\<open>__init__\<close>: the arguments may each be anything the caller passes; the last one,
  \<open>update_interval\<close>, is not read by the body.\<close>

definition init ::
  "string option \<Rightarrow> string option \<Rightarrow> string option \<Rightarrow> pyval \<Rightarrow> world
     \<Rightarrow> unit outcome \<times> conn \<times> world" where
  "init username password url update_interval_arg w =
     (let urls = (case url of
                    None \<Rightarrow> (''https://www.bmw-connecteddrive.nl/api/vehicle'',
                             ''https://www.bmw-connecteddrive.nl/api/me'')
                  | Some u \<Rightarrow>
                      if startswith u ''https://''
                      then (u @ ''/api/vehicle'', u @ ''/api/me'')
                      else (''https://'' @ u @ ''/api/vehicle'', ''https://'' @ u @ ''/api/me''));
          c = \<lparr>printall = False,
               bmw_username = username,
               bmw_password = password,
               bmw_url = fst urls,
               bmw_url_me = snd urls,
               update_interval = 120,
               is_valid_session = False,
               last_update_time = 0,
               is_updated = False,
               accesstoken = None,
               token_expires = 0,
               utc_offset_min = py_int (real_of_int (py_round (utc_minus_local w)) / 60),
               cars = PList [],
               bmw_vin = PNone,
               cars_data = None\<rparr>
      in (case generate_credentials (c, w) of (r, c1, w1) \<Rightarrow>
            (case r of
               Raise e \<Rightarrow> (Raise e, c1, w1)
             | Return u \<Rightarrow>
                 if is_valid_session c1
                 then (case get_cars (c1, w1) of (r2, c2, w2) \<Rightarrow>
                         (case r2 of
                            Raise e \<Rightarrow> (Raise e, c2, w2)
                          | Return v \<Rightarrow>
                              (case update (c2, w2) of (r3, c3, w3) \<Rightarrow>
                                 (case r3 of
                                    Raise e \<Rightarrow> (Raise e, c3, w3)
                                  | Return x \<Rightarrow> (Return (), c3, w3)))))
                 else (Return (), c1, w1))))"

section \<open>Vocabulary of the statements\<close>

text \<open>A request that passes no \<open>timeout\<close>; a sleep is not a transport call.\<close>

definition no_timeout :: "event \<Rightarrow> bool" where
  "no_timeout e = (case e of Sent rq \<Rightarrow> req_timeout rq = None | Slept n \<Rightarrow> True)"

text \<open>The trace of \<open>w'\<close> is the trace of \<open>w\<close> followed by events that pass no timeout.\<close>

definition adds_without_timeout :: "world \<Rightarrow> world \<Rightarrow> bool" where
  "adds_without_timeout w w' =
     (take (length (trace w)) (trace w') = trace w
      \<and> list_all no_timeout (drop (length (trace w)) (trace w')))"

text \<open>The \<open>timeout\<close> arguments of the transport calls of a trace, in order.\<close>

fun timeouts :: "event list \<Rightarrow> nat option list" where
  "timeouts [] = []"
| "timeouts (Sent rq # es) = req_timeout rq # timeouts es"
| "timeouts (Slept n # es) = timeouts es"

text \<open>An event without its headers and body: the method and URL of a call, or the length
  of a sleep.\<close>

datatype call_kind = Call http_method string | Pause nat

definition kind_of :: "event \<Rightarrow> call_kind" where
  "kind_of e = (case e of Sent rq \<Rightarrow> Call (req_method rq) (req_url rq) | Slept n \<Rightarrow> Pause n)"



text \<open>The snapshot \<open>update\<close> stores for a fetched attribute map: the map with the keys
  \<open>vin\<close>, \<open>car_name\<close> and \<open>type_of_car\<close> set, in this order.\<close>

definition snapshot :: "(string \<times> pyval) list \<Rightarrow> pyval \<Rightarrow> string \<Rightarrow> string \<Rightarrow> pyval" where
  "snapshot m vin car_name type_of_car =
     PDict (AList.update ''type_of_car'' (PStr type_of_car)
             (AList.update ''car_name'' (PStr car_name)
               (AList.update ''vin'' vin m)))"

section \<open>Sample sessions\<close>

text \<open>A logged-in object with the token \<open>OLD\<close>, valid until 5000 and last updated at 1000;
  \<open>c_old\<close> is the same object with a token that expired at 100. The world \<open>w_script t rs\<close>
  reads \<open>t\<close> on its clock, formats every timestamp, and answers the transport calls with
  \<open>rs\<close>, in order, and with a fault after that.\<close>

definition c_demo :: conn where
  "c_demo = \<lparr>printall = False, bmw_username = Some ''user@example.org'',
     bmw_password = Some ''secret'',
     bmw_url = ''https://www.bmw-connecteddrive.nl/api/vehicle'',
     bmw_url_me = ''https://www.bmw-connecteddrive.nl/api/me'',
     update_interval = 120, is_valid_session = True, last_update_time = 1000, is_updated = True,
     accesstoken = Some ''OLD'', token_expires = 5000, utc_offset_min = -60,
     cars = PList [], bmw_vin = PNone, cars_data = Some []\<rparr>"

definition c_old :: conn where
  "c_old = c_demo\<lparr>token_expires := 100\<rparr>"

definition w_script :: "real \<Rightarrow> reply list \<Rightarrow> world" where
  "w_script t rs = \<lparr>clock = (\<lambda>k. t), reads = 0, utc_minus_local = -3600,
     localtime_raises = (\<lambda>k. None),
     net = (\<lambda>k. if k < length rs then rs ! k else Fault), calls = 0, trace = []\<rparr>"

definition w_quiet :: "real \<Rightarrow> world" where
  "w_quiet t = w_script t []"

definition r_login :: response where
  "r_login = \<lparr>status_code = 302,
     location = Some ''https://www.bmw-connecteddrive.com/app/default/static/external-dispatch.html#access_token=NEW&token_type=Bearer&expires_in=7199'',
     json_body = None, xml_body = None\<rparr>"

definition r_json :: "pyval \<Rightarrow> response" where
  "r_json v = \<lparr>status_code = 200, location = None, json_body = Some v, xml_body = None\<rparr>"

definition r_status :: "int \<Rightarrow> response" where
  "r_status n = \<lparr>status_code = n, location = None, json_body = None, xml_body = None\<rparr>"

definition r_xml :: "string \<Rightarrow> response" where
  "r_xml status = \<lparr>status_code = 200, location = None, json_body = None,
     xml_body = Some (Element ''remoteServiceExecution'' None
                        [Element ''eventId'' (Some ''1'') [],
                         Element ''remoteServiceStatus'' (Some status) []])\<rparr>"

text \<open>Two registered vehicles, an answer to the dynamic-data request with a given
  \<open>attributesMap\<close>, and a cycle over three vehicles in which the second fetch is answered
  with status 500.\<close>

definition car1 :: pyval where
  "car1 = PDict [(''vin'', PStr ''WBA1''), (''brand'', PStr ''BMW''), (''modelName'', PStr ''320d'')]"

definition car2 :: pyval where
  "car2 = PDict [(''vin'', PStr ''WBY2''), (''brand'', PStr ''BMW''), (''modelName'', PStr ''i3'')]"

definition c_two :: conn where
  "c_two = c_demo\<lparr>cars := PList [car1, car2]\<rparr>"

definition c_three :: conn where
  "c_three = c_demo\<lparr>cars := PList [car1, car2, car1]\<rparr>"

definition r_attrs :: "(string \<times> pyval) list \<Rightarrow> response" where
  "r_attrs m = r_json (PDict [(''attributesMap'', PDict m), (''vehicleMessages'', PDict [])])"

definition w_second_fails :: world where
  "w_second_fails = w_script 2000 [Reply (r_attrs [(''mileage'', PStr ''1234'')]),
                                   Reply (r_status 500),
                                   Reply (r_attrs [(''mileage'', PStr ''1234'')])]"

text \<open>A cycle over three vehicles whose fetches all succeed: the first map has no
  \<open>charging_status\<close>, the second has it with \<open>remaining_fuel = "0"\<close>, the third has it with
  \<open>remaining_fuel = "23"\<close>.\<close>

definition car3 :: pyval where
  "car3 = PDict [(''vin'', PStr ''WBA3''), (''brand'', PStr ''BMW''), (''modelName'', PStr ''530e'')]"

definition c_fleet :: conn where
  "c_fleet = c_demo\<lparr>cars := PList [car1, car2, car3]\<rparr>"

definition w_fleet :: world where
  "w_fleet = w_script 2000
     [Reply (r_attrs [(''mileage'', PStr ''1234'')]),
      Reply (r_attrs [(''charging_status'', PStr ''CHARGINGACTIVE''), (''remaining_fuel'', PStr ''0'')]),
      Reply (r_attrs [(''charging_status'', PStr ''NOCHARGING''), (''remaining_fuel'', PStr ''23'')])]"

section \<open>Frame and trace lemmas\<close>

lemma adds_without_timeout_iff:
  "adds_without_timeout w w' \<longleftrightarrow> (\<exists>new. trace w' = trace w @ new \<and> list_all no_timeout new)"
  unfolding adds_without_timeout_def
  by (metis append_eq_conv_conj append_take_drop_id)

lemma adds_refl: "adds_without_timeout w w"
  by (simp add: adds_without_timeout_iff)

lemma adds_trans:
  "adds_without_timeout w w1 \<Longrightarrow> adds_without_timeout w1 w2 \<Longrightarrow> adds_without_timeout w w2"
  by (auto simp: adds_without_timeout_iff)

lemma adds_tick: "adds_without_timeout w (tick w)"
  by (simp add: adds_without_timeout_iff tick_def)

lemma adds_sleep: "adds_without_timeout w (sleep n w)"
  by (simp add: adds_without_timeout_iff sleep_def no_timeout_def)

lemma adds_send: "req_timeout rq = None \<Longrightarrow> adds_without_timeout w (send rq w)"
  by (simp add: adds_without_timeout_iff send_def no_timeout_def)

lemma generate_credentials_frame:
  assumes "generate_credentials (c, w) = (r, c', w')"
  shows "update_interval c' = update_interval c" and "last_update_time c' = last_update_time c"
    and "cars c' = cars c" and "cars_data c' = cars_data c"
  using assms
  by (auto simp: generate_credentials_def Let_def split: reply.splits option.splits if_splits prod.splits)

lemma generate_credentials_adds:
  "generate_credentials (c, w) = (r, c', w') \<Longrightarrow> adds_without_timeout w w'"
  by (auto simp: generate_credentials_def Let_def adds_without_timeout_iff send_def tick_def no_timeout_def
      split: reply.splits option.splits if_splits prod.splits)

lemma token_valid_frame:
  assumes "token_valid (c, w) = (r, c', w')"
  shows "update_interval c' = update_interval c" and "last_update_time c' = last_update_time c"
    and "cars c' = cars c" and "cars_data c' = cars_data c"
  using assms generate_credentials_frame [of c "tick w" r c' w']
  by (auto simp: token_valid_def Let_def split: if_splits)

lemma token_valid_adds:
  "token_valid (c, w) = (r, c', w') \<Longrightarrow> adds_without_timeout w w'"
  using generate_credentials_adds [of c "tick w" r c' w'] adds_tick [of w]
  by (auto simp: token_valid_def Let_def split: if_splits intro: adds_trans)

lemma request_car_data_frame:
  assumes "request_car_data dt sub vin (c, w) = (r, c', w')"
  shows "update_interval c' = update_interval c" and "last_update_time c' = last_update_time c"
    and "cars c' = cars c" and "cars_data c' = cars_data c"
  using assms
  by (auto simp: request_car_data_def Let_def
      split: option.splits prod.splits outcome.splits reply.splits if_splits sum.splits
      dest: token_valid_frame)

lemma request_car_data_world:
  assumes "request_car_data dt sub vin (c, w) = (r, c', w')"
  shows "w' = w \<or> (\<exists>tv c1 w1. token_valid (c, w) = (tv, c1, w1)
            \<and> (w' = w1 \<or> (\<exists>rq. req_timeout rq = None \<and> w' = send rq w1)))"
proof (cases "accesstoken c")
  case None
  with assms show ?thesis by (simp add: request_car_data_def)
next
  case (Some tok)
  obtain tv c1 w1 where tv: "token_valid (c, w) = (tv, c1, w1)"
    by (cases "token_valid (c, w)") auto
  show ?thesis
  proof (cases tv)
    case (Raise e)
    with assms Some tv show ?thesis by (simp add: request_car_data_def)
  next
    case (Return u)
    let ?c2 = "if vin \<noteq> PNone then c1\<lparr>bmw_vin := vin\<rparr> else c1"
    let ?url = "if dt = ''dynamic''
                then bmw_url ?c2 @ ''/'' @ dt @ ''/v1/'' @ py_str (bmw_vin ?c2)
                     @ ''?offset='' @ str_int (utc_offset_min ?c2)
                else if dt = ''get_cars'' then bmw_url_me ?c2 @ ''/vehicles/v2''
                else bmw_url ?c2 @ ''/'' @ dt @ ''/v1/'' @ py_str (bmw_vin ?c2)"
    let ?rq = "\<lparr>req_method = GET, req_url = ?url,
                req_headers = [(''Content-Type'', ''application/json''),
                               (''User-agent'', USER_AGENT),
                               (''Authorization'', ''Bearer '' @ tok)],
                req_data = None, req_allow_redirects = True, req_timeout = None\<rparr>"
    from assms Some tv Return have "w' = send ?rq w1"
      by (auto simp: request_car_data_def Let_def
          split: reply.splits option.splits sum.splits if_splits)
    moreover have "req_timeout ?rq = None" by simp
    ultimately show ?thesis using tv by blast
  qed
qed

lemma request_car_data_adds:
  assumes "request_car_data dt sub vin (c, w) = (r, c', w')"
  shows "adds_without_timeout w w'"
  using request_car_data_world [OF assms]
  by (auto intro: adds_refl adds_send adds_trans dest: token_valid_adds)

lemma get_cars_world:
  assumes "get_cars (c, w) = (r, c', w')"
  shows "\<exists>r1 c1. request_car_data ''get_cars'' None PNone (c, w) = (r1, c1, w')
           \<and> update_interval c' = update_interval c1"
proof -
  obtain r1 c1 w1 where rq: "request_car_data ''get_cars'' None PNone (c, w) = (r1, c1, w1)"
    by (cases "request_car_data ''get_cars'' None PNone (c, w)") auto
  with assms have "w' = w1 \<and> update_interval c' = update_interval c1"
    by (auto simp: get_cars_def Let_def split: outcome.splits sum.splits option.splits)
  with rq show ?thesis by blast
qed

lemma get_cars_interval:
  "get_cars (c, w) = (r, c', w') \<Longrightarrow> update_interval c' = update_interval c"
  by (auto dest!: get_cars_world dest: request_car_data_frame(1))

lemma get_cars_adds:
  "get_cars (c, w) = (r, c', w') \<Longrightarrow> adds_without_timeout w w'"
  by (auto dest!: get_cars_world dest: request_car_data_adds)

lemma update_car_world:
  assumes "update_car car (c, w) = (r, c', w')"
  shows "(c' = c \<and> w' = w)
       \<or> (\<exists>vin r1 c1. get_car_data vin (c, w) = (r1, c1, w')
             \<and> (c' = c1 \<or> (\<exists>xs. c' = c1\<lparr>cars_data := Some xs\<rparr>)))"
proof (cases "py_getitem car ''vin''")
  case (Inl e)
  with assms show ?thesis by (simp add: update_car_def)
next
  case vin: (Inr vin)
  show ?thesis
  proof (cases "py_getitem car ''brand''")
    case (Inl e)
    with assms vin show ?thesis by (simp add: update_car_def)
  next
    case brand: (Inr brand)
    show ?thesis
    proof (cases "py_getitem car ''modelName''")
      case (Inl e)
      with assms vin brand show ?thesis by (simp add: update_car_def)
    next
      case model: (Inr model_name)
      obtain r1 c1 w1 where g: "get_car_data vin (c, w) = (r1, c1, w1)"
        by (cases "get_car_data vin (c, w)") auto
      with assms vin brand model
      have "w' = w1 \<and> (c' = c1 \<or> (\<exists>xs. c' = c1\<lparr>cars_data := Some xs\<rparr>))"
        by (auto simp: update_car_def Let_def split: outcome.splits sum.splits option.splits if_splits)
      with g show ?thesis by blast
    qed
  qed
qed

lemma get_car_data_frame:
  assumes "get_car_data vin (c, w) = (r, c', w')"
  shows "update_interval c' = update_interval c" and "last_update_time c' = last_update_time c"
    and "cars c' = cars c" and "cars_data c' = cars_data c"
  using assms request_car_data_frame [of "''dynamic''" "Some ''attributesMap''" vin c w r c' w']
  by (simp_all add: get_car_data_def)

lemma get_car_data_adds:
  "get_car_data vin (c, w) = (r, c', w') \<Longrightarrow> adds_without_timeout w w'"
  using request_car_data_adds [of "''dynamic''" "Some ''attributesMap''" vin c w r c' w']
  by (simp add: get_car_data_def)

lemma update_car_frame:
  assumes "update_car car (c, w) = (r, c', w')"
  shows "update_interval c' = update_interval c" and "last_update_time c' = last_update_time c"
  using update_car_world [OF assms]
  by (auto dest: get_car_data_frame(1) get_car_data_frame(2))

lemma update_car_adds:
  "update_car car (c, w) = (r, c', w') \<Longrightarrow> adds_without_timeout w w'"
  by (auto dest!: update_car_world dest: get_car_data_adds intro: adds_refl)

lemma update_loop_frame:
  "update_loop xs (c, w) = (r, c', w') \<Longrightarrow>
     update_interval c' = update_interval c \<and> last_update_time c' = last_update_time c"
proof (induction xs arbitrary: c w)
  case Nil
  then show ?case by simp
next
  case (Cons car rest)
  obtain r1 c1 w1 where step: "update_car car (c, w) = (r1, c1, w1)"
    by (cases "update_car car (c, w)") auto
  note fr = update_car_frame [OF step]
  show ?case
  proof (cases r1)
    case (Raise e)
    with Cons.prems step fr show ?thesis by simp
  next
    case (Return appended)
    show ?thesis
    proof (cases appended)
      case True
      with Cons.prems step Return have "update_loop rest (c1, w1) = (r, c', w')" by simp
      from Cons.IH [OF this] fr show ?thesis by simp
    next
      case False
      with Cons.prems step Return fr show ?thesis by simp
    qed
  qed
qed

lemma update_loop_adds:
  "update_loop xs (c, w) = (r, c', w') \<Longrightarrow> adds_without_timeout w w'"
proof (induction xs arbitrary: c w)
  case Nil
  then show ?case by (simp add: adds_refl)
next
  case (Cons car rest)
  obtain r1 c1 w1 where step: "update_car car (c, w) = (r1, c1, w1)"
    by (cases "update_car car (c, w)") auto
  note ad = update_car_adds [OF step]
  show ?case
  proof (cases r1)
    case (Raise e)
    with Cons.prems step ad show ?thesis by simp
  next
    case (Return appended)
    show ?thesis
    proof (cases appended)
      case True
      with Cons.prems step Return have "update_loop rest (c1, w1) = (r, c', w')" by simp
      from Cons.IH [OF this] ad show ?thesis by (rule adds_trans [rotated])
    next
      case False
      with Cons.prems step Return ad show ?thesis by simp
    qed
  qed
qed

lemma update_world:
  assumes "update (c, w) = (r, c', w')"
  shows "(w' = tick w \<and> update_interval c' = update_interval c)
       \<or> (\<exists>xs r1 c1 w1. update_loop xs (c\<lparr>cars_data := Some []\<rparr>, tick w) = (r1, c1, w1)
             \<and> (w' = w1 \<or> w' = tick w1) \<and> update_interval c' = update_interval c1)"
proof (cases "time_now w - last_update_time c > real_of_int (update_interval c)")
  case False
  with assms show ?thesis by (auto simp: update_def Let_def)
next
  case due: True
  show ?thesis
  proof (cases "py_iter (cars c)")
    case (Inl e)
    with assms due show ?thesis by (auto simp: update_def Let_def)
  next
    case (Inr xs)
    obtain r1 c1 w1 where l: "update_loop xs (c\<lparr>cars_data := Some []\<rparr>, tick w) = (r1, c1, w1)"
      by (cases "update_loop xs (c\<lparr>cars_data := Some []\<rparr>, tick w)") auto
    with assms due Inr
    have "(w' = w1 \<or> w' = tick w1) \<and> update_interval c' = update_interval c1"
      by (auto simp: update_def Let_def split: outcome.splits if_splits)
    with l show ?thesis by blast
  qed
qed

lemma update_interval_kept:
  "update (c, w) = (r, c', w') \<Longrightarrow> update_interval c' = update_interval c"
  by (auto dest!: update_world dest: update_loop_frame)

lemma update_adds:
  assumes "update (c, w) = (r, c', w')"
  shows "adds_without_timeout w w'"
proof -
  from update_world [OF assms] consider "w' = tick w"
    | xs r1 c1 w1 where "update_loop xs (c\<lparr>cars_data := Some []\<rparr>, tick w) = (r1, c1, w1)"
        and "w' = w1 \<or> w' = tick w1"
    by blast
  then show ?thesis
  proof cases
    case 1
    then show ?thesis by (simp add: adds_tick)
  next
    case 2
    have a: "adds_without_timeout w w1"
      using adds_trans [OF adds_tick update_loop_adds [OF 2(1)]] .
    from 2(2) show ?thesis
    proof
      assume "w' = w1"
      with a show ?thesis by simp
    next
      assume "w' = tick w1"
      with adds_trans [OF a adds_tick] show ?thesis by simp
    qed
  qed
qed

lemmas demo_defs = c_demo_def c_old_def r_login_def r_json_def r_status_def w_script_def w_quiet_def

lemmas run_defs = time_now_def tick_def answer_def send_def sleep_def py_int_def
  re_match_token_def lit_def plus_group_def is_dot_def is_word_def is_digit_def int_of_digits_def

lemma poll_loop_adds:
  "req_timeout rq = None \<Longrightarrow> poll_loop n iv rq rss w = (r, w') \<Longrightarrow> adds_without_timeout w w'"
proof (induction n arbitrary: rss w)
  case 0
  then show ?case by (simp add: adds_refl)
next
  case (Suc n)
  let ?w2 = "send rq (sleep iv w)"
  have a: "adds_without_timeout w ?w2"
    using adds_trans [OF adds_sleep adds_send [OF Suc.prems(1)]] .
  show ?case
  proof (cases "answer (sleep iv w)")
    case Fault
    with Suc.prems a show ?thesis by (simp add: Let_def)
  next
    case (Reply resp)
    show ?thesis
    proof (cases "read_status resp")
      case (Inl e)
      with Suc.prems a Reply show ?thesis by (simp add: Let_def)
    next
      case (Inr status)
      show ?thesis
      proof (cases "status = Some ''EXECUTED''")
        case True
        with Suc.prems a Reply Inr show ?thesis by (simp add: Let_def)
      next
        case False
        with Suc.prems Reply Inr have "poll_loop n iv rq status ?w2 = (r, w')"
          by (simp add: Let_def)
        from adds_trans [OF a Suc.IH [OF Suc.prems(1) this]] show ?thesis .
      qed
    qed
  qed
qed




lemma execute_service_unfold:
  assumes tv: "token_valid (c, w) = (Return (), c1, w1)"
      and tok: "accesstoken c1 = Some tok"
      and cmd: "map_of service_codes service = Some command"
      and post: "answer w1 = Reply r"
  shows "\<exists>prq grq.
           req_method prq = POST
         \<and> req_url prq = bmw_url c1 @ ''/remoteservices/v1/'' @ py_str vin @ ''/'' @ command
         \<and> req_timeout prq = None
         \<and> req_method grq = GET
         \<and> req_url grq = bmw_url c1 @ ''/remoteservices/v1/'' @ py_str vin @ ''/state/execution''
         \<and> req_timeout grq = None
         \<and> execute_service service vin (c, w) =
             (if status_code r \<noteq> 200 then (Return False, c1, send prq w1)
              else (case poll_loop 9 10 grq None (send prq w1) of
                      (pr, w3) \<Rightarrow>
                        (case pr of
                           Raise e \<Rightarrow> (Raise e, c1, w3)
                         | Return remote_service_status \<Rightarrow>
                             if remote_service_status \<noteq> Some ''EXECUTED''
                             then (Return False, c1, w3)
                             else (Return True, c1, w3))))"
proof -
  let ?hs = "[(''Content-Type'', ''application/json''), (''User-agent'', USER_AGENT),
              (''Authorization'', ''Bearer '' @ tok)]"
  let ?prq = "\<lparr>req_method = POST,
               req_url = bmw_url c1 @ ''/remoteservices/v1/'' @ py_str vin @ ''/'' @ command,
               req_headers = ?hs, req_data = None, req_allow_redirects = True,
               req_timeout = None\<rparr>"
  let ?grq = "\<lparr>req_method = GET,
               req_url = bmw_url c1 @ ''/remoteservices/v1/'' @ py_str vin @ ''/state/execution'',
               req_headers = ?hs, req_data = None, req_allow_redirects = True,
               req_timeout = None\<rparr>"
  have "execute_service service vin (c, w) =
          (if status_code r \<noteq> 200 then (Return False, c1, send ?prq w1)
           else (case poll_loop 9 10 ?grq None (send ?prq w1) of
                   (pr, w3) \<Rightarrow>
                     (case pr of
                        Raise e \<Rightarrow> (Raise e, c1, w3)
                      | Return remote_service_status \<Rightarrow>
                          if remote_service_status \<noteq> Some ''EXECUTED''
                          then (Return False, c1, w3)
                          else (Return True, c1, w3))))"
    by (simp add: execute_service_def tv tok cmd post Let_def)
  moreover have "req_method ?prq = POST" "req_timeout ?prq = None" "req_method ?grq = GET"
    "req_timeout ?grq = None"
    "req_url ?prq = bmw_url c1 @ ''/remoteservices/v1/'' @ py_str vin @ ''/'' @ command"
    "req_url ?grq = bmw_url c1 @ ''/remoteservices/v1/'' @ py_str vin @ ''/state/execution''"
    by simp_all
  ultimately show ?thesis by blast
qed






lemma execute_service_adds:
  assumes "execute_service service vin (c, w) = (r, c', w')"
  shows "adds_without_timeout w w'"
proof -
  obtain tv c1 w1 where tv: "token_valid (c, w) = (tv, c1, w1)"
    by (cases "token_valid (c, w)") auto
  note a1 = token_valid_adds [OF tv]
  show ?thesis
  proof (cases tv)
    case (Raise e)
    with assms tv a1 show ?thesis by (simp add: execute_service_def)
  next
    case (Return u)
    then have tv': "token_valid (c, w) = (Return (), c1, w1)" using tv by simp
    show ?thesis
    proof (cases "accesstoken c1")
      case None
      with assms tv' a1 show ?thesis by (simp add: execute_service_def)
    next
      case (Some tok)
      show ?thesis
      proof (cases "map_of service_codes service")
        case None
        with assms tv' Some a1 show ?thesis by (simp add: execute_service_def)
      next
        case cmd: (Some command)
        show ?thesis
        proof (cases "answer w1")
          case Fault
          with assms tv' Some cmd have "adds_without_timeout w1 w'"
            by (auto simp: execute_service_def Let_def intro!: adds_send)
          with a1 show ?thesis by (rule adds_trans)
        next
          case (Reply resp)
          from execute_service_unfold [OF tv' Some cmd Reply, of vin] obtain prq grq where
            t: "req_timeout prq = None" "req_timeout grq = None"
            and ex: "execute_service service vin (c, w) =
               (if status_code resp \<noteq> 200 then (Return False, c1, send prq w1)
                else (case poll_loop 9 10 grq None (send prq w1) of
                        (pr, w3) \<Rightarrow>
                          (case pr of
                             Raise e \<Rightarrow> (Raise e, c1, w3)
                           | Return remote_service_status \<Rightarrow>
                               if remote_service_status \<noteq> Some ''EXECUTED''
                               then (Return False, c1, w3)
                               else (Return True, c1, w3))))"
            by blast
          have a2: "adds_without_timeout w (send prq w1)"
            using adds_trans [OF a1 adds_send [OF t(1)]] .
          show ?thesis
          proof (cases "status_code resp \<noteq> 200")
            case True
            with assms ex a2 show ?thesis by simp
          next
            case False
            obtain pr w3 where pl: "poll_loop 9 10 grq None (send prq w1) = (pr, w3)"
              by (cases "poll_loop 9 10 grq None (send prq w1)") auto
            from assms ex False pl have "w' = w3"
              by (auto split: outcome.splits if_splits)
            with adds_trans [OF a2 poll_loop_adds [OF t(2) pl]] show ?thesis by simp
          qed
        qed
      qed
    qed
  qed
qed

lemma init_adds:
  assumes "init username password url update_interval_arg w = (r, c', w')"
  shows "adds_without_timeout w w'"
proof -
  let ?urls = "case url of
                 None \<Rightarrow> (''https://www.bmw-connecteddrive.nl/api/vehicle'',
                          ''https://www.bmw-connecteddrive.nl/api/me'')
               | Some u \<Rightarrow>
                   if startswith u ''https://''
                   then (u @ ''/api/vehicle'', u @ ''/api/me'')
                   else (''https://'' @ u @ ''/api/vehicle'', ''https://'' @ u @ ''/api/me'')"
  let ?c = "\<lparr>printall = False, bmw_username = username, bmw_password = password,
             bmw_url = fst ?urls, bmw_url_me = snd ?urls, update_interval = 120,
             is_valid_session = False, last_update_time = 0, is_updated = False,
             accesstoken = None, token_expires = 0,
             utc_offset_min = py_int (real_of_int (py_round (utc_minus_local w)) / 60),
             cars = PList [], bmw_vin = PNone, cars_data = None\<rparr>"
  obtain r1 c1 w1 where g: "generate_credentials (?c, w) = (r1, c1, w1)"
    by (cases "generate_credentials (?c, w)") auto
  obtain r2 c2 w2 where gc: "get_cars (c1, w1) = (r2, c2, w2)"
    by (cases "get_cars (c1, w1)") auto
  obtain r3 c3 w3 where u: "update (c2, w2) = (r3, c3, w3)"
    by (cases "update (c2, w2)") auto
  have a1: "adds_without_timeout w w1" using generate_credentials_adds [OF g] .
  have a2: "adds_without_timeout w w2" using adds_trans [OF a1 get_cars_adds [OF gc]] .
  have a3: "adds_without_timeout w w3" using adds_trans [OF a2 update_adds [OF u]] .
  have "w' \<in> {w1, w2, w3}"
    using assms g gc u by (auto simp: init_def Let_def split: outcome.splits if_splits)
  with a1 a2 a3 show ?thesis by auto
qed

lemma update_loop_append:
  "update_loop (xs @ ys) (c, w) =
     (case update_loop xs (c, w) of (r, c1, w1) \<Rightarrow>
        (case r of
           Raise e \<Rightarrow> (Raise e, c1, w1)
         | Return completed \<Rightarrow>
             if completed then update_loop ys (c1, w1) else (Return False, c1, w1)))"
proof (induction xs arbitrary: c w)
  case Nil
  then show ?case by simp
next
  case (Cons car rest)
  obtain r1 c1 w1 where step: "update_car car (c, w) = (r1, c1, w1)"
    by (cases "update_car car (c, w)") auto
  show ?case
  proof (cases r1)
    case (Raise e)
    with step show ?thesis by simp
  next
    case (Return appended)
    with step Cons.IH [of c1 w1] show ?thesis by simp
  qed
qed

lemma update_car_failed_fetch:
  assumes "py_getitem car ''vin'' = Inr vin"
      and "py_getitem car ''brand'' = Inr brand"
      and "py_getitem car ''modelName'' = Inr model_name"
      and "get_car_data vin (c, w) = (Return (PInt code), c1, w1)"
  shows "update_car car (c, w) = (Return False, c1, w1)"
  using assms by (simp add: update_car_def Let_def type_is_int_def)

lemmas py_defs = py_getitem_def py_getitem_opt_def py_setitem_def py_iter_def py_in_def
  py_str_def type_is_int_def str_int_def

lemmas cars_defs = car1_def car2_def c_two_def c_three_def r_attrs_def w_second_fails_def

lemmas fetch_defs = update_car_def get_car_data_def request_car_data_def token_valid_def

lemma update_car_classifies:
  assumes vin: "py_getitem car ''vin'' = Inr vin"
      and brand: "py_getitem car ''brand'' = Inr brand"
      and model: "py_getitem car ''modelName'' = Inr model_name"
      and fetched: "get_car_data vin (c, w) = (Return (PDict m), c1, w1)"
      and store: "cars_data c1 = Some xs"
  shows "(''charging_status'' \<in> fst ` set m \<and> map_of m ''remaining_fuel'' = Some (PStr ''0'')
            \<longrightarrow> update_car car (c, w) =
                  (Return True,
                   c1\<lparr>cars_data := Some (xs @ [snapshot m vin
                        (py_str brand @ '' '' @ py_str model_name) ''electric''])\<rparr>, w1))
       \<and> (''charging_status'' \<in> fst ` set m \<and> map_of m ''remaining_fuel'' = Some fuel
            \<and> fuel \<noteq> PStr ''0''
            \<longrightarrow> update_car car (c, w) =
                  (Return True,
                   c1\<lparr>cars_data := Some (xs @ [snapshot m vin
                        (py_str brand @ '' '' @ py_str model_name) ''hybrid''])\<rparr>, w1))
       \<and> (''charging_status'' \<notin> fst ` set m
            \<longrightarrow> update_car car (c, w) =
                  (Return True,
                   c1\<lparr>cars_data := Some (xs @ [snapshot m vin
                        (py_str brand @ '' '' @ py_str model_name) ''fuel''])\<rparr>, w1))
       \<and> py_getitem (snapshot m vin car_name t) ''type_of_car'' = Inr (PStr t)"
  using assms
  by (simp add: update_car_def Let_def type_is_int_def py_setitem_def py_in_def py_getitem_def
      snapshot_def update_conv' dom_update)

text \<open>Every call site issues its request without a \<open>timeout\<close> argument: whatever the
  operations add to the trace is a sleep or such a request.\<close>

lemma every_call_without_timeout:
  "adds_without_timeout w (snd (snd (generate_credentials (c, w))))
   \<and> adds_without_timeout w (snd (snd (token_valid (c, w))))
   \<and> adds_without_timeout w (snd (snd (request_car_data data_type sub_data_type vin (c, w))))
   \<and> adds_without_timeout w (snd (snd (get_cars (c, w))))
   \<and> adds_without_timeout w (snd (snd (get_car_data vin (c, w))))
   \<and> adds_without_timeout w (snd (snd (update (c, w))))
   \<and> adds_without_timeout w (snd (snd (execute_service service vin (c, w))))
   \<and> adds_without_timeout w (snd (snd (init username password url update_interval_arg w)))"
proof -
  have pc: "x = (fst x, fst (snd x), snd (snd x))" for x :: "'a \<times> 'b \<times> 'c"
    by simp
  show ?thesis
    by (intro conjI generate_credentials_adds [OF pc] token_valid_adds [OF pc]
        request_car_data_adds [OF pc] get_cars_adds [OF pc] get_car_data_adds [OF pc]
        update_adds [OF pc] execute_service_adds [OF pc] init_adds [OF pc])
qed

lemma update_car_cars_data:
  assumes "update_car car (c, w) = (r, c', w')" and "cars_data c = Some zs"
  shows "\<exists>ds. cars_data c' = Some (zs @ ds) \<and> (r = Return True \<longrightarrow> length ds = 1)"
proof (cases "py_getitem car ''vin''")
  case (Inl e)
  with assms show ?thesis by (auto simp: update_car_def)
next
  case vin: (Inr vin)
  show ?thesis
  proof (cases "py_getitem car ''brand''")
    case (Inl e)
    with assms vin show ?thesis by (auto simp: update_car_def)
  next
    case brand: (Inr brand)
    show ?thesis
    proof (cases "py_getitem car ''modelName''")
      case (Inl e)
      with assms vin brand show ?thesis by (auto simp: update_car_def)
    next
      case model: (Inr model_name)
      obtain r1 c1 w1 where g: "get_car_data vin (c, w) = (r1, c1, w1)"
        by (cases "get_car_data vin (c, w)") auto
      have cd: "cars_data c1 = Some zs"
        using get_car_data_frame(4) [OF g] assms(2) by simp
      from assms(1) vin brand model g cd
      have "(cars_data c' = Some zs \<and> r \<noteq> Return True)
          \<or> (\<exists>d. cars_data c' = Some (zs @ [d]))"
        by (auto simp: update_car_def Let_def split: outcome.splits sum.splits if_splits)
      then show ?thesis by auto
    qed
  qed
qed

lemma update_loop_cars_data:
  "update_loop xs (c, w) = (r, c', w') \<Longrightarrow> cars_data c = Some zs
     \<Longrightarrow> \<exists>ds. cars_data c' = Some (zs @ ds) \<and> (r = Return True \<longrightarrow> length ds = length xs)"
proof (induction xs arbitrary: c w zs)
  case Nil
  then show ?case by simp
next
  case (Cons car rest)
  obtain r1 c1 w1 where step: "update_car car (c, w) = (r1, c1, w1)"
    by (cases "update_car car (c, w)") auto
  from update_car_cars_data [OF step Cons.prems(2)] obtain d1 where
    d1: "cars_data c1 = Some (zs @ d1)" "r1 = Return True \<longrightarrow> length d1 = 1"
    by blast
  show ?case
  proof (cases "r1 = Return True")
    case True
    with Cons.prems(1) step have "update_loop rest (c1, w1) = (r, c', w')" by simp
    from Cons.IH [OF this d1(1)] obtain d2 where
      "cars_data c' = Some ((zs @ d1) @ d2)" "r = Return True \<longrightarrow> length d2 = length rest"
      by blast
    with d1(2) True show ?thesis by auto
  next
    case False
    with Cons.prems(1) step have "c' = c1 \<and> r \<noteq> Return True"
      by (cases r1) (auto split: if_splits)
    with d1(1) show ?thesis by auto
  qed
qed

lemma update_after_loop:
  assumes due: "time_now w - last_update_time c > real_of_int (update_interval c)"
      and cars: "py_iter (cars c) = Inr xs"
      and loop: "update_loop xs (c\<lparr>cars_data := Some []\<rparr>, tick w) = (r, c1, w1)"
  shows "cars_data (fst (snd (update (c, w)))) = cars_data c1"
    and "r = Return True \<Longrightarrow> fst (update (c, w)) = Return (cars_data c1)"
    and "r \<noteq> Return True \<Longrightarrow> fst (update (c, w)) \<noteq> Return (Some rs)"
  using due cars loop
  by (auto simp: update_def Let_def split: outcome.splits)

lemmas fleet_defs = car1_def car2_def car3_def c_fleet_def w_fleet_def r_attrs_def

section \<open>The claims\<close>

text \<open>Claim C1, evaluated where it fails. The session holds the expired token \<open>OLD\<close>;
  \<open>request_car_data\<close> builds its headers first, then \<open>token_valid\<close> logs in and stores the
  token \<open>NEW\<close>, and the GET that follows still carries \<open>Bearer OLD\<close>.\<close>

theorem request_car_data_sends_stale_token:
  "(case request_car_data ''get_cars'' None PNone
           (c_old, w_script 200 [Reply r_login, Reply (r_json (PList []))]) of
      (r, c', w') \<Rightarrow>
        r = Return (PList []) \<and> accesstoken c' = Some ''NEW''
        \<and> map (\<lambda>e. case e of
                      Sent rq \<Rightarrow> (req_method rq, map_of (req_headers rq) ''Authorization'')
                    | Slept n \<Rightarrow> (GET, None)) (trace w')
            = [(POST, None), (GET, Some ''Bearer OLD'')])"
  by (simp add: request_car_data_def token_valid_def generate_credentials_def demo_defs run_defs Let_def)

text \<open>Counterexample to C2 as stated: two vehicles, the first fetch succeeds, the second is
  answered with status 500. \<open>update\<close> returns \<open>None\<close>, and the stored \<open>cars_data\<close> holds
  the snapshot of the first vehicle: a partial list.\<close>

theorem update_leaves_partial_cars_data:
  "fst (update (c_two, w_script 2000 [Reply (r_attrs [(''mileage'', PStr ''1234'')]),
                                      Reply (r_status 500)])) = Return None
   \<and> cars_data (fst (snd (update (c_two,
         w_script 2000 [Reply (r_attrs [(''mileage'', PStr ''1234'')]), Reply (r_status 500)]))))
     = Some [PDict [(''mileage'', PStr ''1234''), (''vin'', PStr ''WBA1''),
                    (''car_name'', PStr ''BMW 320d''), (''type_of_car'', PStr ''fuel'')]]"
  by (simp add: update_def fetch_defs py_defs cars_defs demo_defs run_defs Let_def)

text \<open>Claim C2, amended. In a cycle whose interval has elapsed, when the vehicles before
  \<open>car\<close> have been processed and the fetch for \<open>car\<close> returns an integer status code,
  \<open>update\<close> returns \<open>None\<close> (no snapshot list) in the state and world reached right after
  that fetch: no request is made for the vehicles after \<open>car\<close>, and \<open>last_update_time\<close> is
  not advanced. Nothing is said of what \<open>cars_data\<close> then holds.\<close>

theorem update_aborts_on_failed_fetch:
  assumes due: "time_now w - last_update_time c > real_of_int (update_interval c)"
      and cars: "py_iter (cars c) = Inr (pre @ car # rest)"
      and before: "update_loop pre (c\<lparr>cars_data := Some []\<rparr>, tick w) = (Return True, c1, w1)"
      and vin: "py_getitem car ''vin'' = Inr vin"
      and brand: "py_getitem car ''brand'' = Inr brand"
      and model: "py_getitem car ''modelName'' = Inr model_name"
      and failed: "get_car_data vin (c1, w1) = (Return (PInt code), c2, w2)"
  shows "update (c, w) = (Return None, c2, w2) \<and> last_update_time c2 = last_update_time c"
proof -
  have step: "update_car car (c1, w1) = (Return False, c2, w2)"
    using update_car_failed_fetch [OF vin brand model failed] .
  have loop: "update_loop (pre @ car # rest) (c\<lparr>cars_data := Some []\<rparr>, tick w)
                = (Return False, c2, w2)"
    by (simp add: update_loop_append before step)
  have res: "update (c, w) = (Return None, c2, w2)"
    using due cars loop by (simp add: update_def Let_def)
  have "last_update_time c1 = last_update_time (c\<lparr>cars_data := Some []\<rparr>)"
    using update_loop_frame [OF before] by simp
  moreover have "last_update_time c2 = last_update_time c1"
    using get_car_data_frame(2) [OF failed] .
  ultimately show ?thesis using res by simp
qed

text \<open>Witness for the amended C2: three vehicles, the second fetch is answered with status
  500; the cycle ends after two transport calls.\<close>

theorem update_aborts_on_failed_fetch_witness:
  "real_of_int (update_interval c_three) < time_now w_second_fails - last_update_time c_three
   \<and> fst (update (c_three, w_second_fails)) = Return None
   \<and> last_update_time (fst (snd (update (c_three, w_second_fails)))) = last_update_time c_three
   \<and> calls (snd (snd (update (c_three, w_second_fails)))) = 2"
proof -
  define X where "X = update_loop [car1] (c_three\<lparr>cars_data := Some []\<rparr>, tick w_second_fails)"
  define Y where "Y = get_car_data (PStr ''WBY2'') (fst (snd X), snd (snd X))"
  have due: "real_of_int (update_interval c_three)
               < time_now w_second_fails - last_update_time c_three"
    by (simp add: cars_defs demo_defs run_defs)
  have cars: "py_iter (cars c_three) = Inr ([car1] @ car2 # [car1])"
    by (simp add: c_three_def py_iter_def)
  have x: "fst X = Return True"
    by (simp add: X_def fetch_defs py_defs cars_defs demo_defs run_defs Let_def)
  have y: "fst Y = Return (PInt 500)"
    by (simp add: Y_def X_def fetch_defs py_defs cars_defs demo_defs run_defs Let_def)
  have n: "calls (snd (snd Y)) = 2"
    by (simp add: Y_def X_def fetch_defs py_defs cars_defs demo_defs run_defs Let_def)
  have before: "update_loop [car1] (c_three\<lparr>cars_data := Some []\<rparr>, tick w_second_fails)
                  = (Return True, fst (snd X), snd (snd X))"
    unfolding X_def [symmetric] using x by (simp add: prod_eq_iff)
  have failed: "get_car_data (PStr ''WBY2'') (fst (snd X), snd (snd X))
                  = (Return (PInt 500), fst (snd Y), snd (snd Y))"
    unfolding Y_def [symmetric] using y by (simp add: prod_eq_iff)
  have vin: "py_getitem car2 ''vin'' = Inr (PStr ''WBY2'')"
    and brand: "py_getitem car2 ''brand'' = Inr (PStr ''BMW'')"
    and model: "py_getitem car2 ''modelName'' = Inr (PStr ''i3'')"
    by (simp_all add: car2_def py_getitem_def)
  from update_aborts_on_failed_fetch [OF due cars before vin brand model failed] due n
  show ?thesis by simp
qed

text \<open>Claim C3. When \<open>update\<close> is called at a time \<open>now\<close> with
  \<open>now - last_update_time \<le> update_interval\<close>, it returns \<open>None\<close> (no snapshot list), sets
  \<open>is_updated\<close> to false, issues no transport call (the call counter and the trace are
  unchanged) and leaves \<open>last_update_time\<close> and \<open>cars_data\<close> as they were.\<close>

theorem update_gate_closed:
  assumes "time_now w - last_update_time c \<le> real_of_int (update_interval c)"
  shows "(case update (c, w) of (r, c', w') \<Rightarrow>
            r = Return None \<and> is_updated c' = False
            \<and> calls w' = calls w \<and> trace w' = trace w
            \<and> last_update_time c' = last_update_time c \<and> cars_data c' = cars_data c)"
  using assms by (simp add: update_def Let_def tick_def)

text \<open>Witness for C3: the last update was at 1000, the clock reads 1100, the interval is 120.\<close>

theorem update_gate_closed_witness:
  "time_now (w_quiet 1100) - last_update_time c_demo \<le> real_of_int (update_interval c_demo)
   \<and> fst (update (c_demo, w_quiet 1100)) = Return None
   \<and> is_updated (fst (snd (update (c_demo, w_quiet 1100)))) = False
   \<and> trace (snd (snd (update (c_demo, w_quiet 1100)))) = []"
proof -
  have h: "time_now (w_quiet 1100) - last_update_time c_demo \<le> real_of_int (update_interval c_demo)"
    by (simp add: time_now_def demo_defs)
  from update_gate_closed [OF h] h show ?thesis
    by (auto simp: demo_defs split: prod.splits)
qed

text \<open>Claim C4. In a cycle of \<open>update\<close> whose interval has elapsed, let the vehicles before
  \<open>car\<close> have been processed and let \<open>m\<close> be the attribute map fetched for \<open>car\<close>. With
  \<open>type_of_car\<close> being \<open>'electric'\<close> if \<open>m\<close> contains the key \<open>charging_status\<close> and
  \<open>remaining_fuel\<close> is the string \<open>"0"\<close>, \<open>'hybrid'\<close> if \<open>m\<close> contains \<open>charging_status\<close> and
  \<open>remaining_fuel\<close> is any other value, and \<open>'fuel'\<close> if \<open>m\<close> does not contain
  \<open>charging_status\<close>: the list \<open>update\<close> stores in \<open>cars_data\<close> holds, at the position of
  \<open>car\<close>, the map \<open>m\<close> with \<open>vin\<close>, \<open>car_name\<close> and this \<open>type_of_car\<close> set; a list that
  \<open>update\<close> returns is this stored list, and \<open>update\<close> returns it when its loop runs to
  the end.\<close>

theorem update_classifies_powertrain:
  assumes due: "time_now w - last_update_time c > real_of_int (update_interval c)"
      and cars: "py_iter (cars c) = Inr (pre @ car # rest)"
      and before: "update_loop pre (c\<lparr>cars_data := Some []\<rparr>, tick w) = (Return True, c1, w1)"
      and vin: "py_getitem car ''vin'' = Inr vin"
      and brand: "py_getitem car ''brand'' = Inr brand"
      and model: "py_getitem car ''modelName'' = Inr model_name"
      and fetched: "get_car_data vin (c1, w1) = (Return (PDict m), c2, w2)"
      and kind: "(''charging_status'' \<in> fst ` set m \<and> map_of m ''remaining_fuel'' = Some (PStr ''0'')
                   \<and> type_of_car = ''electric'')
               \<or> (''charging_status'' \<in> fst ` set m \<and> map_of m ''remaining_fuel'' = Some fuel
                   \<and> fuel \<noteq> PStr ''0'' \<and> type_of_car = ''hybrid'')
               \<or> (''charging_status'' \<notin> fst ` set m \<and> type_of_car = ''fuel'')"
  shows "\<exists>ds. cars_data (fst (snd (update (c, w)))) = Some ds
            \<and> length pre < length ds
            \<and> ds ! length pre = snapshot m vin (py_str brand @ '' '' @ py_str model_name) type_of_car
            \<and> py_getitem (ds ! length pre) ''type_of_car'' = Inr (PStr type_of_car)
            \<and> (\<forall>rs. fst (update (c, w)) = Return (Some rs) \<longrightarrow> rs = ds)
            \<and> (fst (update_loop (pre @ car # rest) (c\<lparr>cars_data := Some []\<rparr>, tick w)) = Return True
                 \<longrightarrow> fst (update (c, w)) = Return (Some ds))"
proof -
  let ?snap = "snapshot m vin (py_str brand @ '' '' @ py_str model_name) type_of_car"
  let ?c0 = "c\<lparr>cars_data := Some []\<rparr>"
  from update_loop_cars_data [OF before, of "[]"] obtain xs where
    xs: "cars_data c1 = Some xs" "length xs = length pre"
    by auto
  have store: "cars_data c2 = Some xs"
    using get_car_data_frame(4) [OF fetched] xs(1) by simp
  note cl = update_car_classifies [OF vin brand model fetched store, of fuel]
  have step: "update_car car (c1, w1) = (Return True, c2\<lparr>cars_data := Some (xs @ [?snap])\<rparr>, w2)"
    using kind cl by blast
  obtain r3 c3 w3 where
    after: "update_loop rest (c2\<lparr>cars_data := Some (xs @ [?snap])\<rparr>, w2) = (r3, c3, w3)"
    using prod_cases3 by blast
  have loop: "update_loop (pre @ car # rest) (?c0, tick w) = (r3, c3, w3)"
    using after by (simp add: update_loop_append before step)
  from update_loop_cars_data [OF after, of "xs @ [?snap]"] obtain ys where
    ys: "cars_data c3 = Some ((xs @ [?snap]) @ ys)"
    by auto
  let ?ds = "xs @ ?snap # ys"
  have stored: "cars_data (fst (snd (update (c, w)))) = Some ?ds"
    using update_after_loop(1) [OF due cars loop] ys by simp
  have len: "length pre < length ?ds" using xs(2) by simp
  have nth_snap: "?ds ! length pre = ?snap" using xs(2) by (metis nth_append_length)
  have tkey: "py_getitem ?snap ''type_of_car'' = Inr (PStr type_of_car)"
    using cl by blast
  have ret: "rs = ?ds" if "fst (update (c, w)) = Return (Some rs)" for rs
  proof (cases "r3 = Return True")
    case True
    from update_after_loop(2) [OF due cars loop True] that ys show ?thesis by simp
  next
    case False
    from update_after_loop(3) [OF due cars loop False, of rs] that show ?thesis by simp
  qed
  have done_all: "fst (update (c, w)) = Return (Some ?ds)"
    if "fst (update_loop (pre @ car # rest) (?c0, tick w)) = Return True"
    using update_after_loop(2) [OF due cars loop] that loop ys by simp
  have tkey': "py_getitem (?ds ! length pre) ''type_of_car'' = Inr (PStr type_of_car)"
    using nth_snap tkey by simp
  show ?thesis
  proof (intro exI [of _ ?ds] conjI allI impI)
    show "cars_data (fst (snd (update (c, w)))) = Some ?ds" by (rule stored)
    show "length pre < length ?ds" by (rule len)
    show "?ds ! length pre = ?snap" by (rule nth_snap)
    show "py_getitem (?ds ! length pre) ''type_of_car'' = Inr (PStr type_of_car)" by (rule tkey')
    show "rs = ?ds" if "fst (update (c, w)) = Return (Some rs)" for rs
      using that by (rule ret)
    show "fst (update (c, w)) = Return (Some ?ds)"
      if "fst (update_loop (pre @ car # rest) (?c0, tick w)) = Return True"
      using that by (rule done_all)
  qed
qed

text \<open>Witness for C4: one cycle over three vehicles, whose maps are of the three kinds
  (\<open>fuel\<close>, \<open>electric\<close>, \<open>hybrid\<close>); the theorem is used once for each vehicle.\<close>

theorem update_classifies_powertrain_witness:
  "\<exists>ds. fst (update (c_fleet, w_fleet)) = Return (Some ds)
        \<and> cars_data (fst (snd (update (c_fleet, w_fleet)))) = Some ds
        \<and> ds ! 0 = PDict [(''mileage'', PStr ''1234''), (''vin'', PStr ''WBA1''),
                          (''car_name'', PStr ''BMW 320d''), (''type_of_car'', PStr ''fuel'')]
        \<and> ds ! 1 = PDict [(''charging_status'', PStr ''CHARGINGACTIVE''),
                          (''remaining_fuel'', PStr ''0''), (''vin'', PStr ''WBY2''),
                          (''car_name'', PStr ''BMW i3''), (''type_of_car'', PStr ''electric'')]
        \<and> ds ! 2 = PDict [(''charging_status'', PStr ''NOCHARGING''),
                          (''remaining_fuel'', PStr ''23''), (''vin'', PStr ''WBA3''),
                          (''car_name'', PStr ''BMW 530e''), (''type_of_car'', PStr ''hybrid'')]"
proof -
  let ?c0 = "c_fleet\<lparr>cars_data := Some []\<rparr>"
  let ?m1 = "[(''mileage'', PStr ''1234'')]"
  let ?m2 = "[(''charging_status'', PStr ''CHARGINGACTIVE''), (''remaining_fuel'', PStr ''0'')]"
  let ?m3 = "[(''charging_status'', PStr ''NOCHARGING''), (''remaining_fuel'', PStr ''23'')]"
  define X1 where "X1 = update_loop [] (?c0, tick w_fleet)"
  define Y1 where "Y1 = get_car_data (PStr ''WBA1'') (fst (snd X1), snd (snd X1))"
  define X2 where "X2 = update_loop [car1] (?c0, tick w_fleet)"
  define Y2 where "Y2 = get_car_data (PStr ''WBY2'') (fst (snd X2), snd (snd X2))"
  define X3 where "X3 = update_loop [car1, car2] (?c0, tick w_fleet)"
  define Y3 where "Y3 = get_car_data (PStr ''WBA3'') (fst (snd X3), snd (snd X3))"
  have due: "real_of_int (update_interval c_fleet) < time_now w_fleet - last_update_time c_fleet"
    by (simp add: fleet_defs demo_defs run_defs)
  have cars1: "py_iter (cars c_fleet) = Inr ([] @ car1 # [car2, car3])"
    and cars2: "py_iter (cars c_fleet) = Inr ([car1] @ car2 # [car3])"
    and cars3: "py_iter (cars c_fleet) = Inr ([car1, car2] @ car3 # [])"
    by (simp_all add: c_fleet_def py_iter_def)
  have x1: "fst X1 = Return True" by (simp add: X1_def)
  have y1: "fst Y1 = Return (PDict ?m1)"
    by (simp add: Y1_def X1_def fetch_defs py_defs fleet_defs demo_defs run_defs Let_def)
  have x2: "fst X2 = Return True"
    by (simp add: X2_def fetch_defs py_defs fleet_defs demo_defs run_defs Let_def)
  have y2: "fst Y2 = Return (PDict ?m2)"
    by (simp add: Y2_def X2_def fetch_defs py_defs fleet_defs demo_defs run_defs Let_def)
  have x3: "fst X3 = Return True"
    by (simp add: X3_def fetch_defs py_defs fleet_defs demo_defs run_defs Let_def)
  have y3: "fst Y3 = Return (PDict ?m3)"
    by (simp add: Y3_def X3_def fetch_defs py_defs fleet_defs demo_defs run_defs Let_def)
  have all3: "fst (update_loop ([] @ car1 # [car2, car3]) (?c0, tick w_fleet)) = Return True"
    by (simp add: fetch_defs py_defs fleet_defs demo_defs run_defs Let_def)
  have b1: "update_loop [] (?c0, tick w_fleet) = (Return True, fst (snd X1), snd (snd X1))"
    unfolding X1_def [symmetric] using x1 by (simp add: prod_eq_iff)
  have b2: "update_loop [car1] (?c0, tick w_fleet) = (Return True, fst (snd X2), snd (snd X2))"
    unfolding X2_def [symmetric] using x2 by (simp add: prod_eq_iff)
  have b3: "update_loop [car1, car2] (?c0, tick w_fleet) = (Return True, fst (snd X3), snd (snd X3))"
    unfolding X3_def [symmetric] using x3 by (simp add: prod_eq_iff)
  have f1: "get_car_data (PStr ''WBA1'') (fst (snd X1), snd (snd X1))
              = (Return (PDict ?m1), fst (snd Y1), snd (snd Y1))"
    unfolding Y1_def [symmetric] using y1 by (simp add: prod_eq_iff)
  have f2: "get_car_data (PStr ''WBY2'') (fst (snd X2), snd (snd X2))
              = (Return (PDict ?m2), fst (snd Y2), snd (snd Y2))"
    unfolding Y2_def [symmetric] using y2 by (simp add: prod_eq_iff)
  have f3: "get_car_data (PStr ''WBA3'') (fst (snd X3), snd (snd X3))
              = (Return (PDict ?m3), fst (snd Y3), snd (snd Y3))"
    unfolding Y3_def [symmetric] using y3 by (simp add: prod_eq_iff)
  have k1: "py_getitem car1 ''vin'' = Inr (PStr ''WBA1'')"
    "py_getitem car1 ''brand'' = Inr (PStr ''BMW'')"
    "py_getitem car1 ''modelName'' = Inr (PStr ''320d'')"
    by (simp_all add: car1_def py_getitem_def)
  have k2: "py_getitem car2 ''vin'' = Inr (PStr ''WBY2'')"
    "py_getitem car2 ''brand'' = Inr (PStr ''BMW'')"
    "py_getitem car2 ''modelName'' = Inr (PStr ''i3'')"
    by (simp_all add: car2_def py_getitem_def)
  have k3: "py_getitem car3 ''vin'' = Inr (PStr ''WBA3'')"
    "py_getitem car3 ''brand'' = Inr (PStr ''BMW'')"
    "py_getitem car3 ''modelName'' = Inr (PStr ''530e'')"
    by (simp_all add: car3_def py_getitem_def)
  have kind1: "(''charging_status'' \<in> fst ` set ?m1 \<and> map_of ?m1 ''remaining_fuel'' = Some (PStr ''0'')
                  \<and> ''fuel'' = ''electric'')
             \<or> (''charging_status'' \<in> fst ` set ?m1 \<and> map_of ?m1 ''remaining_fuel'' = Some PNone
                  \<and> PNone \<noteq> PStr ''0'' \<and> ''fuel'' = ''hybrid'')
             \<or> (''charging_status'' \<notin> fst ` set ?m1 \<and> ''fuel'' = ''fuel'')"
    by simp
  have kind2: "(''charging_status'' \<in> fst ` set ?m2 \<and> map_of ?m2 ''remaining_fuel'' = Some (PStr ''0'')
                  \<and> ''electric'' = ''electric'')
             \<or> (''charging_status'' \<in> fst ` set ?m2 \<and> map_of ?m2 ''remaining_fuel'' = Some PNone
                  \<and> PNone \<noteq> PStr ''0'' \<and> ''electric'' = ''hybrid'')
             \<or> (''charging_status'' \<notin> fst ` set ?m2 \<and> ''electric'' = ''fuel'')"
    by simp
  have kind3: "(''charging_status'' \<in> fst ` set ?m3 \<and> map_of ?m3 ''remaining_fuel'' = Some (PStr ''0'')
                  \<and> ''hybrid'' = ''electric'')
             \<or> (''charging_status'' \<in> fst ` set ?m3 \<and> map_of ?m3 ''remaining_fuel'' = Some (PStr ''23'')
                  \<and> PStr ''23'' \<noteq> PStr ''0'' \<and> ''hybrid'' = ''hybrid'')
             \<or> (''charging_status'' \<notin> fst ` set ?m3 \<and> ''hybrid'' = ''fuel'')"
    by simp
  from update_classifies_powertrain [OF due cars1 b1 k1 f1 kind1]
  obtain ds where d1: "cars_data (fst (snd (update (c_fleet, w_fleet)))) = Some ds"
    and n1: "ds ! length ([] :: pyval list)
               = snapshot ?m1 (PStr ''WBA1'') (py_str (PStr ''BMW'') @ '' '' @ py_str (PStr ''320d'')) ''fuel''"
    and r1: "fst (update_loop ([] @ car1 # [car2, car3]) (?c0, tick w_fleet)) = Return True
               \<longrightarrow> fst (update (c_fleet, w_fleet)) = Return (Some ds)"
    by blast
  from update_classifies_powertrain [OF due cars2 b2 k2 f2 kind2]
  obtain ds2 where d2: "cars_data (fst (snd (update (c_fleet, w_fleet)))) = Some ds2"
    and n2: "ds2 ! length [car1]
               = snapshot ?m2 (PStr ''WBY2'') (py_str (PStr ''BMW'') @ '' '' @ py_str (PStr ''i3'')) ''electric''"
    by blast
  from update_classifies_powertrain [OF due cars3 b3 k3 f3 kind3]
  obtain ds3 where d3: "cars_data (fst (snd (update (c_fleet, w_fleet)))) = Some ds3"
    and n3: "ds3 ! length [car1, car2]
               = snapshot ?m3 (PStr ''WBA3'') (py_str (PStr ''BMW'') @ '' '' @ py_str (PStr ''530e'')) ''hybrid''"
    by blast
  have same: "ds2 = ds" "ds3 = ds" using d1 d2 d3 by simp_all
  have ret: "fst (update (c_fleet, w_fleet)) = Return (Some ds)"
    using r1 all3 by (rule mp)
  have s1: "ds ! 0 = PDict [(''mileage'', PStr ''1234''), (''vin'', PStr ''WBA1''),
                            (''car_name'', PStr ''BMW 320d''), (''type_of_car'', PStr ''fuel'')]"
    using n1 by (simp add: snapshot_def py_str_def)
  have s2: "ds ! 1 = PDict [(''charging_status'', PStr ''CHARGINGACTIVE''),
                            (''remaining_fuel'', PStr ''0''), (''vin'', PStr ''WBY2''),
                            (''car_name'', PStr ''BMW i3''), (''type_of_car'', PStr ''electric'')]"
    using n2 same(1) by (simp add: snapshot_def py_str_def)
  have s3: "ds ! 2 = PDict [(''charging_status'', PStr ''NOCHARGING''),
                            (''remaining_fuel'', PStr ''23''), (''vin'', PStr ''WBA3''),
                            (''car_name'', PStr ''BMW 530e''), (''type_of_car'', PStr ''hybrid'')]"
    using n3 same(2) by (simp add: snapshot_def py_str_def numeral_2_eq_2)
  from ret d1 s1 s2 s3 show ?thesis by blast
qed

text \<open>Claim C5. \<open>token_valid\<close> performs a login (a transport call) only when
  \<open>now \<ge> token_expires\<close>. While the token is still valid it performs no transport call and
  returns the session unchanged; in particular a second call that follows a first one within
  the validity of the token does so. The clock is read after the epoch (\<open>0 \<le> now\<close>), where
  \<open>int(now)\<close> rounds down.\<close>

theorem token_valid_lazy_refresh:
  assumes "0 \<le> time_now w"
  shows "(calls (snd (snd (token_valid (c, w)))) \<noteq> calls w
            \<longrightarrow> real_of_int (token_expires c) \<le> time_now w)
       \<and> (time_now w < real_of_int (token_expires c)
            \<longrightarrow> token_valid (c, w) = (Return (), c, tick w)
                \<and> calls (tick w) = calls w \<and> trace (tick w) = trace w)
       \<and> (\<forall>r c1 w1. token_valid (c, w) = (r, c1, w1) \<and> 0 \<le> time_now w1
              \<and> time_now w1 < real_of_int (token_expires c1)
            \<longrightarrow> token_valid (c1, w1) = (Return (), c1, tick w1)
                \<and> calls (tick w1) = calls w1 \<and> trace (tick w1) = trace w1)"
proof -
  have valid: "token_valid (c', w') = (Return (), c', tick w')
             \<and> calls (tick w') = calls w' \<and> trace (tick w') = trace w'"
    if "0 \<le> time_now w'" "time_now w' < real_of_int (token_expires c')" for c' w'
  proof -
    from that have "\<not> py_int (time_now w') \<ge> token_expires c'"
      by (simp add: py_int_def) linarith
    then show ?thesis by (simp add: token_valid_def Let_def tick_def)
  qed
  have expired: "real_of_int (token_expires c) \<le> time_now w"
    if "calls (snd (snd (token_valid (c, w)))) \<noteq> calls w"
  proof (rule ccontr)
    assume "\<not> real_of_int (token_expires c) \<le> time_now w"
    with assms valid [of w c] that show False by simp
  qed
  from valid [OF assms] valid expired show ?thesis by blast
qed

text \<open>Witness for C5: an expired token at 6000 (a login is attempted), a valid token at
  1100 (no call), and two calls in a row at 200 with a token that expired at 100: the first
  logs in, the second makes no call.\<close>

theorem token_valid_lazy_refresh_witness:
  "0 \<le> time_now (w_script 6000 [])
   \<and> calls (snd (snd (token_valid (c_demo, w_script 6000 [])))) \<noteq> calls (w_script 6000 [])
   \<and> real_of_int (token_expires c_demo) \<le> time_now (w_script 6000 [])
   \<and> time_now (w_script 1100 []) < real_of_int (token_expires c_demo)
   \<and> token_valid (c_demo, w_script 1100 []) = (Return (), c_demo, tick (w_script 1100 []))
   \<and> fst (token_valid (c_old, w_script 200 [Reply r_login])) = Return ()
   \<and> calls (snd (snd (token_valid (c_old, w_script 200 [Reply r_login])))) = 1
   \<and> fst (token_valid (snd (token_valid (c_old, w_script 200 [Reply r_login])))) = Return ()
   \<and> calls (snd (snd (token_valid (snd (token_valid (c_old, w_script 200 [Reply r_login])))))) = 1"
proof -
  define X where "X = token_valid (c_old, w_script 200 [Reply r_login])"
  have a: "0 \<le> time_now (w_script 6000 [])" "0 \<le> time_now (w_script 1100 [])"
    "0 \<le> time_now (w_script 200 [Reply r_login])"
    by (simp_all add: demo_defs run_defs)
  have b: "calls (snd (snd (token_valid (c_demo, w_script 6000 [])))) \<noteq> calls (w_script 6000 [])"
    by (simp add: token_valid_def generate_credentials_def demo_defs run_defs Let_def)
  have c: "time_now (w_script 1100 []) < real_of_int (token_expires c_demo)"
    by (simp add: demo_defs run_defs)
  have x1: "fst X = Return ()"
    by (simp add: X_def token_valid_def generate_credentials_def demo_defs run_defs Let_def)
  have x2: "calls (snd (snd X)) = 1"
    by (simp add: X_def token_valid_def generate_credentials_def demo_defs run_defs Let_def)
  have x3: "time_now (snd (snd X)) = 200"
    by (simp add: X_def token_valid_def generate_credentials_def demo_defs run_defs Let_def)
  have x4: "token_expires (fst (snd X)) = 7399"
    by (simp add: X_def token_valid_def generate_credentials_def demo_defs run_defs Let_def)
  have x5: "token_valid (c_old, w_script 200 [Reply r_login]) = (fst X, fst (snd X), snd (snd X))"
    by (simp add: X_def)
  have first: "real_of_int (token_expires c_demo) \<le> time_now (w_script 6000 [])"
    using token_valid_lazy_refresh [OF a(1), of c_demo] b by blast
  have second: "token_valid (c_demo, w_script 1100 []) = (Return (), c_demo, tick (w_script 1100 []))"
    using token_valid_lazy_refresh [OF a(2), of c_demo] c by blast
  have third: "token_valid (fst (snd X), snd (snd X))
                 = (Return (), fst (snd X), tick (snd (snd X)))"
    using token_valid_lazy_refresh [OF a(3), of c_old, THEN conjunct2, THEN conjunct2,
        rule_format, of "fst X" "fst (snd X)" "snd (snd X)"] x5 x3 x4
    by simp
  have t1: "fst (token_valid (snd X)) = Return ()"
    using third by simp
  have t2: "calls (snd (snd (token_valid (snd X)))) = 1"
    using third x2 by (simp add: tick_def)
  from a(1) b first c second x1 x2 t1 t2 show ?thesis
    unfolding X_def by blast
qed



text \<open>Counterexample to C7 as stated: a login answered with status 500 and no
  \<open>Location\<close> header raises KeyError and leaves a valid session valid; a network fault
  raises ConnectionError.\<close>

theorem generate_credentials_raises_on_transport_failure:
  "fst (generate_credentials (c_demo, w_script 6000 [Reply (r_status 500)])) = Raise KeyError
   \<and> is_valid_session (fst (snd (generate_credentials (c_demo, w_script 6000 [Reply (r_status 500)]))))
   \<and> fst (generate_credentials (c_demo, w_script 6000 [Fault])) = Raise ConnectionError"
  by (simp add: generate_credentials_def demo_defs run_defs Let_def)

text \<open>Claim C7, amended. When the login POST raises a network fault or is answered without a
  \<open>Location\<close> header, \<open>generate_credentials\<close> raises (ConnectionError or KeyError) after
  that single POST, without a retry, and leaves every field of the object as it was.\<close>

theorem generate_credentials_transport_failure:
  assumes "answer w = Fault \<or> (\<exists>r. answer w = Reply r \<and> location r = None)"
  shows "(case generate_credentials (c, w) of (r, c', w') \<Rightarrow>
            (r = Raise ConnectionError \<or> r = Raise KeyError) \<and> c' = c
            \<and> calls w' = Suc (calls w) \<and> length (trace w') = Suc (length (trace w)))"
  using assms
  by (auto simp: generate_credentials_def Let_def send_def)

text \<open>Witness for the amended C7: the login is answered with status 500 and no
  \<open>Location\<close> header.\<close>

theorem generate_credentials_transport_failure_witness:
  "(case generate_credentials (c_demo, w_script 6000 [Reply (r_status 500)]) of (r, c', w') \<Rightarrow>
      (r = Raise ConnectionError \<or> r = Raise KeyError) \<and> c' = c_demo
      \<and> calls w' = 1 \<and> length (trace w') = 1)"
proof -
  let ?w = "w_script 6000 [Reply (r_status 500)]"
  have h: "answer ?w = Fault \<or> (\<exists>r. answer ?w = Reply r \<and> location r = None)"
    by (simp add: demo_defs run_defs)
  from generate_credentials_transport_failure [OF h, of c_demo] show ?thesis
    by (simp add: w_script_def split: prod.splits)
qed

text \<open>Claim C8, evaluated where it fails. A vehicle-list request with an expired token
  issues the login POST and the data GET; a \<open>lock\<close> command confirmed at its first poll
  issues the command POST, sleeps 10 and issues the status GET. None of the four calls
  passes a \<open>timeout\<close>, although the module defines \<open>TIMEOUT = 10\<close>.\<close>

theorem transport_calls_pass_no_timeout:
  "map kind_of (trace (snd (snd (get_cars
       (c_old, w_script 200 [Reply r_login, Reply (r_json (PList []))])))))
     = [Call POST ''https://customer.bmwgroup.com/gcdm/oauth/authenticate'',
        Call GET ''https://www.bmw-connecteddrive.nl/api/me/vehicles/v2'']
   \<and> timeouts (trace (snd (snd (get_cars
       (c_old, w_script 200 [Reply r_login, Reply (r_json (PList []))])))))
     = [None, None]
   \<and> map kind_of (trace (snd (snd (execute_service ''lock'' (PStr ''WBA1'')
       (c_demo, w_script 1100 [Reply (r_status 200), Reply (r_xml ''EXECUTED'')])))))
     = [Call POST ''https://www.bmw-connecteddrive.nl/api/vehicle/remoteservices/v1/WBA1/RDL'',
        Pause 10,
        Call GET ''https://www.bmw-connecteddrive.nl/api/vehicle/remoteservices/v1/WBA1/state/execution'']
   \<and> timeouts (trace (snd (snd (execute_service ''lock'' (PStr ''WBA1'')
       (c_demo, w_script 1100 [Reply (r_status 200), Reply (r_xml ''EXECUTED'')])))))
     = [None, None]
   \<and> Some TIMEOUT \<noteq> (None :: nat option)"
proof -
  have a: "map kind_of (trace (snd (snd (get_cars
               (c_old, w_script 200 [Reply r_login, Reply (r_json (PList []))])))))
             = [Call POST ''https://customer.bmwgroup.com/gcdm/oauth/authenticate'',
                Call GET ''https://www.bmw-connecteddrive.nl/api/me/vehicles/v2'']"
    by (simp add: get_cars_def request_car_data_def token_valid_def generate_credentials_def
        kind_of_def AUTH_API_def py_defs demo_defs run_defs Let_def)
  have b: "timeouts (trace (snd (snd (get_cars
               (c_old, w_script 200 [Reply r_login, Reply (r_json (PList []))])))))
             = [None, None]"
    by (simp add: get_cars_def request_car_data_def token_valid_def generate_credentials_def
        py_defs demo_defs run_defs Let_def)
  have c: "map kind_of (trace (snd (snd (execute_service ''lock'' (PStr ''WBA1'')
               (c_demo, w_script 1100 [Reply (r_status 200), Reply (r_xml ''EXECUTED'')])))))
             = [Call POST ''https://www.bmw-connecteddrive.nl/api/vehicle/remoteservices/v1/WBA1/RDL'',
                Pause 10,
                Call GET ''https://www.bmw-connecteddrive.nl/api/vehicle/remoteservices/v1/WBA1/state/execution'']"
    by (simp add: execute_service_def token_valid_def service_codes_def read_status_def
        kind_of_def r_xml_def py_defs demo_defs run_defs Let_def eval_nat_numeral)
  have d: "timeouts (trace (snd (snd (execute_service ''lock'' (PStr ''WBA1'')
               (c_demo, w_script 1100 [Reply (r_status 200), Reply (r_xml ''EXECUTED'')])))))
             = [None, None]"
    by (simp add: execute_service_def token_valid_def service_codes_def read_status_def
        r_xml_def py_defs demo_defs run_defs Let_def eval_nat_numeral)
  from a b c d show ?thesis by simp
qed

text \<open>Claim C9. Whatever is passed as \<open>update_interval\<close>, the constructed object has
  \<open>update_interval = 120\<close>: the argument is not read, and neither the login, nor
  \<open>get_cars\<close>, nor the first \<open>update\<close> of the constructor changes the field.\<close>

theorem constructor_interval_is_120:
  "update_interval (fst (snd (init username password url update_interval_arg w))) = 120"
proof -
  let ?urls = "case url of
                 None \<Rightarrow> (''https://www.bmw-connecteddrive.nl/api/vehicle'',
                          ''https://www.bmw-connecteddrive.nl/api/me'')
               | Some u \<Rightarrow>
                   if startswith u ''https://''
                   then (u @ ''/api/vehicle'', u @ ''/api/me'')
                   else (''https://'' @ u @ ''/api/vehicle'', ''https://'' @ u @ ''/api/me'')"
  let ?c = "\<lparr>printall = False, bmw_username = username, bmw_password = password,
             bmw_url = fst ?urls, bmw_url_me = snd ?urls, update_interval = 120,
             is_valid_session = False, last_update_time = 0, is_updated = False,
             accesstoken = None, token_expires = 0,
             utc_offset_min = py_int (real_of_int (py_round (utc_minus_local w)) / 60),
             cars = PList [], bmw_vin = PNone, cars_data = None\<rparr>"
  obtain r1 c1 w1 where g: "generate_credentials (?c, w) = (r1, c1, w1)"
    by (cases "generate_credentials (?c, w)") auto
  obtain r2 c2 w2 where gc: "get_cars (c1, w1) = (r2, c2, w2)"
    by (cases "get_cars (c1, w1)") auto
  obtain r3 c3 w3 where u: "update (c2, w2) = (r3, c3, w3)"
    by (cases "update (c2, w2)") auto
  have i1: "update_interval c1 = 120"
    using generate_credentials_frame(1) [OF g] by simp
  have i2: "update_interval c2 = 120"
    using get_cars_interval [OF gc] i1 by simp
  have i3: "update_interval c3 = 120"
    using update_interval_kept [OF u] i2 by simp
  have "fst (snd (init username password url update_interval_arg w)) \<in> {c1, c2, c3}"
    using g gc u by (auto simp: init_def Let_def split: outcome.splits)
  with i1 i2 i3 show ?thesis by auto
qed

text \<open>Claim C10. When the vehicle-list fetch is answered with a status other than 200,
  \<open>get_cars\<close> stores the integer status code in \<open>cars\<close> and raises TypeError when it
  iterates it.\<close>

theorem get_cars_status_code_not_distinguished:
  assumes "accesstoken c = Some tok"
      and "token_valid (c, w) = (Return (), c1, w1)"
      and "answer w1 = Reply r"
      and "status_code r \<noteq> 200"
  shows "fst (get_cars (c, w)) = Raise TypeError
       \<and> cars (fst (snd (get_cars (c, w)))) = PInt (status_code r)"
  using assms
  by (simp add: get_cars_def request_car_data_def Let_def py_iter_def)

text \<open>Witness for C10: the vehicle list is answered with status 500.\<close>

theorem get_cars_status_code_not_distinguished_witness:
  "fst (get_cars (c_demo, w_script 1100 [Reply (r_status 500)])) = Raise TypeError
   \<and> cars (fst (snd (get_cars (c_demo, w_script 1100 [Reply (r_status 500)])))) = PInt 500"
proof -
  let ?w = "w_script 1100 [Reply (r_status 500)]"
  have a: "accesstoken c_demo = Some ''OLD''" by (simp add: demo_defs)
  have b: "token_valid (c_demo, ?w) = (Return (), c_demo, tick ?w)"
    by (simp add: token_valid_def demo_defs run_defs Let_def)
  have c: "answer (tick ?w) = Reply (r_status 500)" by (simp add: demo_defs run_defs)
  have d: "status_code (r_status 500) \<noteq> 200" by (simp add: demo_defs)
  from get_cars_status_code_not_distinguished [OF a b c d] show ?thesis
    by (simp add: r_status_def)
qed

end
